theory Spec2Isabelle
  imports Complex_Main
begin

section \<open>Conventions of the embedding\<close>

text \<open>
  The repository holds three variants of one bullet-hell game: the scrolling shooter
  (\<^verbatim>\<open>touhou-game.ts\<close>), the single-boss game (\<^verbatim>\<open>part_000\<close>) and the three-stage boss game
  (\<^verbatim>\<open>part_001\<close>), and the pattern library the two boss games import (\<^verbatim>\<open>part_002\<close>).

  JavaScript numbers are embedded as exact numbers: coordinates, speeds and times as
  \<^typ>\<open>real\<close>, counters that the code only ever steps by whole amounts (lives, score,
  health, stage) as \<^typ>\<open>int\<close>, array cursors as \<^typ>\<open>nat\<close>. Rounding of IEEE doubles is
  not part of the model. Sprites, audio, DOM text and particles never flow back into the
  simulation and are left out, except for the end-of-game screen. Ambient reads of the
  clock (\<^verbatim>\<open>Date.now()\<close>, \<^verbatim>\<open>performance.now()\<close>) and of the canvas size become parameters.
\<close>

subsection \<open>JavaScript arrays\<close>

text \<open>\<^verbatim>\<open>a.splice(i, 1)\<close> for an index \<open>i \<ge> 0\<close>: removes one element, nothing when out of range.\<close>

definition splice1 :: "nat \<Rightarrow> 'a list \<Rightarrow> 'a list" where
  "splice1 i xs = take i xs @ drop (Suc i) xs"

text \<open>
  \<^verbatim>\<open>a.splice(start, 1)\<close> for any integer: a negative start counts from the end (so
  \<open>-1\<close>, the result of a failed \<^verbatim>\<open>indexOf\<close>, removes the last element).
\<close>

definition spliceAt :: "int \<Rightarrow> 'a list \<Rightarrow> 'a list" where
  "spliceAt start xs =
     (let n = int (length xs);
          k = (if start < 0 then max (n + start) 0 else min start n)
      in splice1 (nat k) xs)"

subsection \<open>Boxes and the overlap test\<close>

record box =
  xpos :: real
  ypos :: real
  width :: real
  height :: real

text \<open>\<^verbatim>\<open>checkRectCollision(a, b)\<close> / \<^verbatim>\<open>checkCollision(rect1, rect2)\<close>: any two objects with a box.\<close>

definition checkRectCollision :: "'a box_scheme \<Rightarrow> 'b box_scheme \<Rightarrow> bool" where
  "checkRectCollision a b \<longleftrightarrow>
     xpos a < xpos b + width b \<and>
     xpos a + width a > xpos b \<and>
     ypos a < ypos b + height b \<and>
     ypos a + height a > ypos b"

datatype owner = PlayerOwned | EnemyOwned

section \<open>The scrolling shooter (touhou-game.ts)\<close>

subsection \<open>Entities\<close>

text \<open>
  Every bullet literal of this file sets \<open>vx\<close> and \<open>vy\<close>, and \<^verbatim>\<open>updateBullets\<close> reads them
  under a non-null assertion, so they are plain numbers here. \<open>ident\<close> stands for the
  identity of the JavaScript object, which \<^verbatim>\<open>indexOf\<close> compares.
\<close>

record bullet = box +
  speed :: real
  btype :: owner
  bulletType :: int
  vx :: real
  vy :: real
  ident :: nat

record enemy = box +
  evx :: real
  evy :: real
  health :: int
  maxHealth :: int
  ebullets :: "bullet list"
  lastShot :: real
  shootCooldown :: real
  fairyType :: int
  patternType :: int
  movementType :: int
  spawnTime :: real
  targetY :: "real option"
  isStationary :: bool

record boss = box +
  bhealth :: int
  bmaxHealth :: int
  bbullets :: "bullet list"
  blastShot :: real
  phase :: int

record player = box +
  pspeed :: real
  pbullets :: "bullet list"
  plastShot :: real
  pshootCooldown :: real

datatype screen = NoScreen | GameOverScreen | VictoryScreen

record game =
  isRunning :: bool
  isPaused :: bool
  score :: int
  lives :: int
  scrollY :: real
  maxScrollY :: real
  bossPhase :: bool
  nextExtend :: int
  thePlayer :: player
  enemies :: "enemy list"
  theBoss :: "boss option"
  orphanBullets :: "bullet list"
  overlay :: screen

definition playerHitboxRadius :: real where
  "playerHitboxRadius = 4"

subsection \<open>updateBullets\<close>

definition moveBullet :: "bullet \<Rightarrow> bullet" where
  "moveBullet b = b\<lparr>xpos := xpos b + vx b, ypos := ypos b + vy b\<rparr>"

definition offScreen :: "real \<Rightarrow> real \<Rightarrow> bullet \<Rightarrow> bool" where
  "offScreen W H b \<longleftrightarrow> ypos b < -10 \<or> ypos b > H + 10 \<or> xpos b < -10 \<or> xpos b > W + 10"

text \<open>
  \<^verbatim>\<open>for (let i = a.length - 1; i >= 0; i--) { move a[i]; if (off screen) a.splice(i, 1); }\<close>
  The first argument counts the indices still to visit: \<open>Suc i\<close> visits index \<open>i\<close>.
\<close>

fun cullLoop :: "real \<Rightarrow> real \<Rightarrow> nat \<Rightarrow> bullet list \<Rightarrow> bullet list" where
  "cullLoop W H 0 bs = bs"
| "cullLoop W H (Suc i) bs =
     (let b = moveBullet (bs ! i);
          bs1 = bs[i := b]
      in cullLoop W H i (if offScreen W H b then splice1 i bs1 else bs1))"

definition updatePool :: "real \<Rightarrow> real \<Rightarrow> bullet list \<Rightarrow> bullet list" where
  "updatePool W H bs = cullLoop W H (length bs) bs"

definition updateBullets :: "real \<Rightarrow> real \<Rightarrow> game \<Rightarrow> game" where
  "updateBullets W H g =
     g\<lparr>thePlayer := (thePlayer g)\<lparr>pbullets := updatePool W H (pbullets (thePlayer g))\<rparr>,
       enemies := map (\<lambda>e. e\<lparr>ebullets := updatePool W H (ebullets e)\<rparr>) (enemies g),
       orphanBullets := updatePool W H (orphanBullets g),
       theBoss := map_option (\<lambda>b. b\<lparr>bbullets := updatePool W H (bbullets b)\<rparr>) (theBoss g)\<rparr>"

subsection \<open>updateUI, playerHit\<close>

text \<open>\<^verbatim>\<open>updateUI\<close>: besides the DOM text, it grants the pending extend.\<close>

definition updateUI :: "game \<Rightarrow> game" where
  "updateUI g =
     (if score g \<ge> nextExtend g
      then g\<lparr>lives := lives g + 1, nextExtend := nextExtend g + 4000\<rparr>
      else g)"

definition showGameOver :: "game \<Rightarrow> game" where
  "showGameOver g = g\<lparr>isRunning := False, overlay := GameOverScreen\<rparr>"

definition showVictory :: "game \<Rightarrow> game" where
  "showVictory g = g\<lparr>isRunning := False, overlay := VictoryScreen\<rparr>"

definition playerHit :: "game \<Rightarrow> game" where
  "playerHit g =
     (let g1 = updateUI (g\<lparr>lives := lives g - 1\<rparr>);
          g2 = g1\<lparr>enemies := map (\<lambda>e. e\<lparr>ebullets := []\<rparr>) (enemies g1),
                  orphanBullets := [],
                  theBoss := map_option (\<lambda>b. b\<lparr>bbullets := []\<rparr>) (theBoss g1)\<rparr>
      in if lives g2 \<le> 0 then showGameOver g2 else g2)"

subsection \<open>updateEnemies\<close>

text \<open>
  One pass of the backwards loop over \<^verbatim>\<open>this.enemies\<close>. Movement, animation and
  \<^verbatim>\<open>enemyShoot\<close> (lines 559-609) read the clock and the player and write only the enemy
  at hand; they are the parameter \<open>advance\<close>, indexed by the position of the enemy.
  The rest is the removal block of lines 611-620.
\<close>

fun enemyLoop :: "(nat \<Rightarrow> enemy \<Rightarrow> enemy) \<Rightarrow> real \<Rightarrow> nat \<Rightarrow> game \<Rightarrow> game" where
  "enemyLoop advance H 0 g = g"
| "enemyLoop advance H (Suc i) g =
     (let e = advance i (enemies g ! i);
          g1 = g\<lparr>enemies := (enemies g)[i := e]\<rparr>
      in enemyLoop advance H i
           (if ypos e > H + 50 \<or> health e \<le> 0
            then (let g2 = (if health e \<le> 0
                            then updateUI (g1\<lparr>orphanBullets := orphanBullets g1 @ ebullets e,
                                               score := score g1 + 100\<rparr>)
                            else g1)
                  in g2\<lparr>enemies := splice1 i (enemies g2)\<rparr>)
            else g1))"

definition updateEnemies :: "(nat \<Rightarrow> enemy \<Rightarrow> enemy) \<Rightarrow> real \<Rightarrow> game \<Rightarrow> game" where
  "updateEnemies advance H g = enemyLoop advance H (length (enemies g)) g"

subsection \<open>checkCollisions\<close>

text \<open>\<^verbatim>\<open>a.indexOf(b)\<close>: the first index holding the same object, \<open>-1\<close> when there is none.\<close>

fun indexOf :: "bullet \<Rightarrow> bullet list \<Rightarrow> int" where
  "indexOf b [] = -1"
| "indexOf b (c # cs) =
     (if ident c = ident b then 0
      else (let r = indexOf b cs in if r < 0 then -1 else r + 1))"

text \<open>The inner \<^verbatim>\<open>for (const enemy of this.enemies)\<close> with its \<^verbatim>\<open>break\<close>.\<close>

fun hitFirstEnemy :: "bullet \<Rightarrow> enemy list \<Rightarrow> enemy list option" where
  "hitFirstEnemy b [] = None"
| "hitFirstEnemy b (e # es) =
     (if checkRectCollision b e then Some (e\<lparr>health := health e - 1\<rparr> # es)
      else map_option ((#) e) (hitFirstEnemy b es))"

lemma length_splice1: "length (splice1 i xs) \<le> length xs"
  by (simp add: splice1_def)

lemma length_spliceAt: "length (spliceAt k xs) \<le> length xs"
  by (simp add: spliceAt_def Let_def length_splice1)

text \<open>
  The outer \<^verbatim>\<open>for (const bullet of this.player.bullets)\<close>: the array iterator keeps an
  index, reads the live array at each step and stops when the index reaches its length.
\<close>

function bulletsVsEnemies :: "nat \<Rightarrow> bullet list \<Rightarrow> enemy list \<Rightarrow> bullet list \<times> enemy list" where
  "bulletsVsEnemies i bs es =
     (if i < length bs
      then (case hitFirstEnemy (bs ! i) es of
              None \<Rightarrow> bulletsVsEnemies (Suc i) bs es
            | Some es' \<Rightarrow> bulletsVsEnemies (Suc i) (spliceAt (indexOf (bs ! i) bs) bs) es')
      else (bs, es))"
  by pat_completeness auto
termination
proof (relation "measure (\<lambda>(i, bs, es). length bs - i)")
  show "wf (measure (\<lambda>(i, bs, es). length bs - i))" by simp
next
  fix i :: nat and bs :: "bullet list" and es :: "enemy list"
  assume "i < length bs"
  then show "((Suc i, bs, es), (i, bs, es)) \<in> measure (\<lambda>(i, bs, es). length bs - i)"
    by simp
next
  fix i :: nat and bs :: "bullet list" and es es' :: "enemy list"
  assume "i < length bs"
  moreover have "length (spliceAt (indexOf (bs ! i) bs) bs) \<le> length bs"
    by (rule length_spliceAt)
  ultimately show "((Suc i, spliceAt (indexOf (bs ! i) bs) bs, es'), (i, bs, es))
      \<in> measure (\<lambda>(i, bs, es). length bs - i)"
    by simp
qed

declare bulletsVsEnemies.simps [simp del]

text \<open>Player bullets against the boss: the loop leaves at the first hit, so the array is
  whole while it is scanned. The first argument is the array, the second what is left to scan.\<close>

fun bulletsVsBoss :: "bullet list \<Rightarrow> bullet list \<Rightarrow> boss \<Rightarrow> bullet list \<times> boss" where
  "bulletsVsBoss bs [] b = (bs, b)"
| "bulletsVsBoss bs (c # cs) b =
     (if checkRectCollision c b
      then (spliceAt (indexOf c bs) bs, b\<lparr>bhealth := bhealth b - 1\<rparr>)
      else bulletsVsBoss bs cs b)"

text \<open>
  The circular test of the three hostile-bullet loops: the distance from the centre of the
  bullet to the centre of the player against \<open>playerHitboxRadius + bullet.width / 2\<close>.
\<close>

definition hitsPlayer :: "real \<Rightarrow> real \<Rightarrow> bullet \<Rightarrow> bool" where
  "hitsPlayer pcx pcy b =
     (let dx = xpos b + width b / 2 - pcx;
          dy = ypos b + height b / 2 - pcy;
          dist = sqrt (dx * dx + dy * dy)
      in dist < playerHitboxRadius + width b / 2)"

text \<open>
  Enemy bullets: for the enemy at index \<open>k\<close>, the first bullet that hits calls
  \<^verbatim>\<open>playerHit\<close>, is spliced out of the array the enemy holds by then, and ends the inner loop.
\<close>

definition enemyBulletsStep :: "real \<Rightarrow> real \<Rightarrow> game \<Rightarrow> nat \<Rightarrow> game" where
  "enemyBulletsStep pcx pcy g k =
     (case find (hitsPlayer pcx pcy) (ebullets (enemies g ! k)) of
        None \<Rightarrow> g
      | Some b \<Rightarrow>
          (let g1 = playerHit g;
               e = enemies g1 ! k
           in g1\<lparr>enemies := (enemies g1)[k := e\<lparr>ebullets := spliceAt (indexOf b (ebullets e)) (ebullets e)\<rparr>]\<rparr>))"

definition enemyBulletsVsPlayer :: "real \<Rightarrow> real \<Rightarrow> game \<Rightarrow> game" where
  "enemyBulletsVsPlayer pcx pcy g = foldl (enemyBulletsStep pcx pcy) g [0..<length (enemies g)]"

text \<open>Orphan bullets: scanned from the last index down, leaving at the first hit.\<close>

fun orphansVsPlayer :: "real \<Rightarrow> real \<Rightarrow> nat \<Rightarrow> game \<Rightarrow> game" where
  "orphansVsPlayer pcx pcy 0 g = g"
| "orphansVsPlayer pcx pcy (Suc i) g =
     (if hitsPlayer pcx pcy (orphanBullets g ! i)
      then (let g1 = playerHit g in g1\<lparr>orphanBullets := splice1 i (orphanBullets g1)\<rparr>)
      else orphansVsPlayer pcx pcy i g)"

definition bossBulletsVsPlayer :: "real \<Rightarrow> real \<Rightarrow> game \<Rightarrow> game" where
  "bossBulletsVsPlayer pcx pcy g =
     (case theBoss g of
        None \<Rightarrow> g
      | Some b \<Rightarrow>
          (case find (hitsPlayer pcx pcy) (bbullets b) of
             None \<Rightarrow> g
           | Some c \<Rightarrow>
               (let g1 = playerHit g
                in g1\<lparr>theBoss := map_option
                       (\<lambda>b1. b1\<lparr>bbullets := spliceAt (indexOf c (bbullets b1)) (bbullets b1)\<rparr>)
                       (theBoss g1)\<rparr>)))"

definition playerBulletsVsEnemies :: "game \<Rightarrow> game" where
  "playerBulletsVsEnemies g =
     (case bulletsVsEnemies 0 (pbullets (thePlayer g)) (enemies g) of
        (bs, es) \<Rightarrow> g\<lparr>thePlayer := (thePlayer g)\<lparr>pbullets := bs\<rparr>, enemies := es\<rparr>)"

definition playerBulletsVsBoss :: "game \<Rightarrow> game" where
  "playerBulletsVsBoss g =
     (case theBoss g of
        None \<Rightarrow> g
      | Some b \<Rightarrow>
          (case bulletsVsBoss (pbullets (thePlayer g)) (pbullets (thePlayer g)) b of
             (bs, b1) \<Rightarrow> g\<lparr>thePlayer := (thePlayer g)\<lparr>pbullets := bs\<rparr>, theBoss := Some b1\<rparr>))"

definition checkCollisions :: "game \<Rightarrow> game" where
  "checkCollisions g =
     (let pcx = xpos (thePlayer g) + width (thePlayer g) / 2;
          pcy = ypos (thePlayer g) + height (thePlayer g) / 2;
          g1 = playerBulletsVsEnemies g;
          g2 = playerBulletsVsBoss g1;
          g3 = enemyBulletsVsPlayer pcx pcy g2;
          g4 = orphansVsPlayer pcx pcy (length (orphanBullets g3)) g3
      in bossBulletsVsPlayer pcx pcy g4)"

subsection \<open>Concrete entities\<close>

text \<open>A straight player shot as \<^verbatim>\<open>playerShoot\<close> builds it, at a given place.\<close>

definition playerShot :: "real \<Rightarrow> real \<Rightarrow> nat \<Rightarrow> bullet" where
  "playerShot x y n =
     \<lparr>xpos = x, ypos = y, width = 8, height = 16,
      speed = 12, btype = PlayerOwned, bulletType = 0, vx = 0, vy = -12, ident = n\<rparr>"

text \<open>The straight-down shot of \<^verbatim>\<open>enemyShoot\<close> (pattern 0) for an enemy centred at \<open>(cx, cy)\<close>.\<close>

definition enemyShot :: "real \<Rightarrow> real \<Rightarrow> nat \<Rightarrow> bullet" where
  "enemyShot cx cy n =
     \<lparr>xpos = cx - 6, ypos = cy, width = 12, height = 12,
      speed = 2.5, btype = EnemyOwned, bulletType = 0, vx = 0, vy = 2.5, ident = n\<rparr>"

text \<open>A fairy as \<^verbatim>\<open>spawnEnemies\<close> builds it, at a given place, with given health and bullets.\<close>

definition fairy :: "real \<Rightarrow> real \<Rightarrow> int \<Rightarrow> bullet list \<Rightarrow> enemy" where
  "fairy x y h bs =
     \<lparr>xpos = x, ypos = y, width = 44, height = 44,
      evx = 0, evy = 1.5, health = h, maxHealth = 4, ebullets = bs,
      lastShot = 0, shootCooldown = 1200, fairyType = 0, patternType = 0,
      movementType = 2, spawnTime = 0, targetY = None, isStationary = False\<rparr>"

text \<open>The state \<^verbatim>\<open>startGame\<close> sets up, on a canvas of 640 by 960.\<close>

definition startedGame :: game where
  "startedGame =
     \<lparr>isRunning = True, isPaused = False, score = 0, lives = 5,
      scrollY = 1920, maxScrollY = 1920, bossPhase = False, nextExtend = 4000,
      thePlayer = \<lparr>xpos = 640 / 2 - 25, ypos = 960 - 100, width = 60, height = 78,
                   pspeed = 5, pbullets = [], plastShot = 0, pshootCooldown = 80\<rparr>,
      enemies = [], theBoss = None, orphanBullets = [], overlay = NoScreen\<rparr>"

text \<open>A fairy shot down to health 0 with three bullets in flight, the first on the player.\<close>

definition threeShots :: "bullet list" where
  "threeShots = [enemyShot 325 893 1, enemyShot 200 300 2, enemyShot 400 500 3]"

definition fairyDown :: game where
  "fairyDown = startedGame\<lparr>enemies := [fairy 300 100 0 threeShots]\<rparr>"

section \<open>The pattern library (part_002)\<close>

record vector2D =
  vecx :: real
  vecy :: real

record bossBulletConfig =
  position :: vector2D
  cfgSpeed :: real
  angleRad :: real
  cfgWidth :: real
  cfgHeight :: real

record patternContext =
  bossPos :: vector2D
  playerPos :: vector2D
  tick :: real
  seed :: "real option"

record bossPattern =
  pname :: string
  duration :: real
  spawn :: "patternContext \<Rightarrow> bossBulletConfig list"

definition degToRad :: "real \<Rightarrow> real" where
  "degToRad deg = (deg * pi) / 180"

text \<open>\<^verbatim>\<open>Math.atan2(y, x)\<close> on exact numbers.\<close>

definition atan2 :: "real \<Rightarrow> real \<Rightarrow> real" where
  "atan2 y x =
     (if x > 0 then arctan (y / x)
      else if x < 0 then (if y \<ge> 0 then arctan (y / x) + pi else arctan (y / x) - pi)
      else if y > 0 then pi / 2
      else if y < 0 then - (pi / 2)
      else 0)"

definition angleToPlayer :: "vector2D \<Rightarrow> vector2D \<Rightarrow> real" where
  "angleToPlayer from to = atan2 (vecy to - vecy from) (vecx to - vecx from)"

definition slow :: "real \<Rightarrow> real" where
  "slow v = v * 0.8"

text \<open>
  The remainder operator \<^verbatim>\<open>a % b\<close> on numbers: the quotient is truncated towards zero, so
  the result has the sign of \<open>a\<close>. Every divisor in the library is a non-zero constant.
\<close>

definition jsRem :: "real \<Rightarrow> real \<Rightarrow> real" where
  "jsRem a b = a - b * of_int (if a / b \<ge> 0 then \<lfloor>a / b\<rfloor> else \<lceil>a / b\<rceil>)"

definition mathFloor :: "real \<Rightarrow> real" where
  "mathFloor v = of_int \<lfloor>v\<rfloor>"

definition mkConfig :: "real \<Rightarrow> real \<Rightarrow> real \<Rightarrow> real \<Rightarrow> real \<Rightarrow> real \<Rightarrow> bossBulletConfig" where
  "mkConfig px py sp ang w h =
     \<lparr>position = \<lparr>vecx = px, vecy = py\<rparr>, cfgSpeed = sp, angleRad = ang, cfgWidth = w, cfgHeight = h\<rparr>"

text \<open>
  The loops \<^verbatim>\<open>for (let i = 0; i < n; i++)\<close> and \<^verbatim>\<open>for (let i = -2; i <= 2; i++)\<close> that push one
  descriptor per round are maps over the index range.
\<close>

definition upTo :: "nat \<Rightarrow> real list" where
  "upTo n = map real [0..<n]"

definition fromTo :: "int \<Rightarrow> int \<Rightarrow> real list" where
  "fromTo a b = map real_of_int [a..b]"

definition radialBurst :: bossPattern where
  "radialBurst =
     \<lparr>pname = ''radialBurst'', duration = 5000,
      spawn = (\<lambda>ctx.
        if jsRem (tick ctx) 600 < 16
        then map (\<lambda>i. mkConfig (vecx (bossPos ctx)) (vecy (bossPos ctx) + 30) (slow 2.5)
                          (degToRad ((360 / 24) * i + jsRem (tick ctx / 8) 360)) 4 8)
                 (upTo 24)
        else [])\<rparr>"

definition spiralStream :: bossPattern where
  "spiralStream =
     \<lparr>pname = ''spiralStream'', duration = 6000,
      spawn = (\<lambda>ctx.
        if jsRem (tick ctx) 60 < 16
        then (let base = jsRem (tick ctx / 6) 360
              in map (\<lambda>i. mkConfig (vecx (bossPos ctx)) (vecy (bossPos ctx) + 20) (slow 3.0)
                             (degToRad (base + i * 180)) 4 8)
                     (upTo 2))
        else [])\<rparr>"

definition aimedVolley :: bossPattern where
  "aimedVolley =
     \<lparr>pname = ''aimedVolley'', duration = 4000,
      spawn = (\<lambda>ctx.
        if jsRem (tick ctx) 500 < 16
        then (let baseAngle = angleToPlayer (bossPos ctx) (playerPos ctx);
                  spread = degToRad 20;
                  count = 5
              in map (\<lambda>i. mkConfig (vecx (bossPos ctx)) (vecy (bossPos ctx) + 30) (slow 3.2)
                             (baseAngle + (i * spread) / (count / 2)) 4 8)
                     (fromTo (-2) 2))
        else [])\<rparr>"

definition waveRings :: bossPattern where
  "waveRings =
     \<lparr>pname = ''waveRings'', duration = 5000,
      spawn = (\<lambda>ctx.
        if jsRem (tick ctx) 400 < 16
        then map (\<lambda>i. (let base = (i / 16) * pi * 2;
                             offset = sin (tick ctx / 250) * 0.6
                         in mkConfig (vecx (bossPos ctx)) (vecy (bossPos ctx) + 24) (slow 2.2)
                              (base + offset) 4 8))
                 (upTo 16)
        else [])\<rparr>"

definition zigzagBarrage :: bossPattern where
  "zigzagBarrage =
     \<lparr>pname = ''zigzagBarrage'', duration = 4800,
      spawn = (\<lambda>ctx.
        if jsRem (tick ctx) 56 < 12
        then map (\<lambda>i. mkConfig (vecx (bossPos ctx) + i * 26) (vecy (bossPos ctx) + 18)
                          (slow (2.55 + 0.2 * \<bar>i\<bar>))
                          (degToRad (60 + sin (tick ctx / 250 + i) * 60 + i * 20)) 4 8)
                 (fromTo (-2) 2)
        else [])\<rparr>"

definition crossSpread :: bossPattern where
  "crossSpread =
     \<lparr>pname = ''crossSpread'', duration = 4400,
      spawn = (\<lambda>ctx.
        if jsRem (tick ctx) 480 < 20
        then map (\<lambda>i. mkConfig (vecx (bossPos ctx)) (vecy (bossPos ctx) + 23) (slow 2.8)
                          (degToRad (i * 45 + (tick ctx / 8))) 4 8)
                 (upTo 8)
        else [])\<rparr>"

text \<open>
  The inner loop over \<open>g\<close> sets \<open>skip\<close> when \<open>i\<close> is one of the gap slots; \<^verbatim>\<open>continue\<close> then
  leaves the slot out: a filter of the index range.
\<close>

definition laserWall :: bossPattern where
  "laserWall =
     \<lparr>pname = ''laserWall'', duration = 6000,
      spawn = (\<lambda>ctx.
        if jsRem (tick ctx) 700 < 16
        then (let gapCount = 2;
                  count = 18;
                  gapPos = mathFloor (\<bar>sin (tick ctx / 1200)\<bar> * (real count - real gapCount))
              in map (\<lambda>i. mkConfig (70 + i * 38) (vecy (bossPos ctx) + 5) (slow 2.6)
                             (degToRad 90) 6 16)
                     (filter (\<lambda>i. \<not> (\<exists>g \<in> set (upTo gapCount). i = gapPos + g)) (upTo count)))
        else [])\<rparr>"

definition inwardSpiral :: bossPattern where
  "inwardSpiral =
     \<lparr>pname = ''inwardSpiral'', duration = 5800,
      spawn = (\<lambda>ctx.
        if jsRem (tick ctx) 83 < 16
        then (let base = angleToPlayer (bossPos ctx) (playerPos ctx)
              in map (\<lambda>i. (let spiralAngle = base + (i - 3) * 0.45 + sin (tick ctx / 220) * 0.4
                             in mkConfig (vecx (bossPos ctx)) (vecy (bossPos ctx))
                                  (slow (2.45 + \<bar>i - 3\<bar> * 0.1)) spiralAngle 4 8))
                     (upTo 7))
        else [])\<rparr>"

definition sidelongZigzag :: bossPattern where
  "sidelongZigzag =
     \<lparr>pname = ''sidelongZigzag'', duration = 4500,
      spawn = (\<lambda>ctx.
        if jsRem (tick ctx) 220 < 18
        then concat (map (\<lambda>side.
               (let startX = (if side = 0 then 70 else 620);
                    baseAngle = (if side = 0 then degToRad 75 else degToRad 105)
                in map (\<lambda>i. mkConfig startX (vecy (bossPos ctx) + 10 + i * 9)
                               (slow (3.3 - 0.2 * i))
                               (baseAngle + sin (tick ctx / 130 + i) * 0.4) 4 8)
                       (upTo 4)))
               (upTo 2))
        else [])\<rparr>"

definition curtainRain :: bossPattern where
  "curtainRain =
     \<lparr>pname = ''curtainRain'', duration = 5000,
      spawn = (\<lambda>ctx.
        if jsRem (tick ctx) 90 < 16
        then map (\<lambda>i. (let x = 80 + i * 70;
                             angle = degToRad (90 + sin ((tick ctx + i * 50) / 200) * 20)
                         in mkConfig x (vecy (bossPos ctx)) (slow 2.6) angle 4 8))
                 (fromTo 0 8)
        else [])\<rparr>"

definition gappedRingSweep :: bossPattern where
  "gappedRingSweep =
     \<lparr>pname = ''gappedRingSweep'', duration = 4500,
      spawn = (\<lambda>ctx.
        if jsRem (tick ctx) 500 < 16
        then (let gaps = 2;
                  count = 36;
                  gapStart = mathFloor (jsRem (tick ctx / 10) (real count))
              in map (\<lambda>i. mkConfig (vecx (bossPos ctx)) (vecy (bossPos ctx)) (slow 2.4)
                             (degToRad ((360 / real count) * i + (tick ctx / 8))) 4 8)
                     (filter (\<lambda>i. \<not> (\<exists>g \<in> set (upTo gaps).
                                 i = jsRem (gapStart + g * mathFloor (real count / real gaps)) (real count)))
                             (upTo count)))
        else [])\<rparr>"

definition aimedSpiral :: bossPattern where
  "aimedSpiral =
     \<lparr>pname = ''aimedSpiral'', duration = 5500,
      spawn = (\<lambda>ctx.
        if jsRem (tick ctx) 70 < 16
        then (let base = angleToPlayer (bossPos ctx) (playerPos ctx) + (tick ctx / 200)
              in map (\<lambda>i. mkConfig (vecx (bossPos ctx)) (vecy (bossPos ctx)) (slow 3.0)
                             (base + i * 0.5) 4 8)
                     (upTo 3))
        else [])\<rparr>"

definition simpleRain :: bossPattern where
  "simpleRain =
     \<lparr>pname = ''simpleRain'', duration = 4000,
      spawn = (\<lambda>ctx.
        if jsRem (tick ctx) 150 < 16
        then map (\<lambda>i. (let x = 150 + i * 100
                         in mkConfig x (vecy (bossPos ctx)) (slow 2.0) (degToRad 90) 4 8))
                 (fromTo 0 5)
        else [])\<rparr>"

definition denseSpiral :: bossPattern where
  "denseSpiral =
     \<lparr>pname = ''denseSpiral'', duration = 6000,
      spawn = (\<lambda>ctx.
        if jsRem (tick ctx) 40 < 16
        then (let base = jsRem (tick ctx / 5) 360
              in map (\<lambda>i. mkConfig (vecx (bossPos ctx)) (vecy (bossPos ctx)) (slow 3.5)
                             (degToRad (base + i * 90)) 4 8)
                     (upTo 4))
        else [])\<rparr>"

text \<open>
  \<^verbatim>\<open>shufflePatterns\<close>: Fisher-Yates on a copy of the array, from the last index down to 1.
  \<open>rnd i\<close> is what \<^verbatim>\<open>Math.random()\<close> returns in the round of index \<open>i\<close>, a number from 0
  up to but not including 1.
\<close>

fun shuffleLoop :: "(nat \<Rightarrow> real) \<Rightarrow> nat \<Rightarrow> 'a list \<Rightarrow> 'a list" where
  "shuffleLoop rnd 0 a = a"
| "shuffleLoop rnd (Suc i) a =
     (let j = nat \<lfloor>rnd (Suc i) * (real (Suc i) + 1)\<rfloor>
      in shuffleLoop rnd i (a[Suc i := a ! j, j := a ! Suc i]))"

definition shufflePatterns :: "(nat \<Rightarrow> real) \<Rightarrow> 'a list \<Rightarrow> 'a list" where
  "shufflePatterns rnd arr = shuffleLoop rnd (length arr - 1) arr"

text \<open>
  The array handed to \<^verbatim>\<open>shufflePatterns\<close>, and \<^verbatim>\<open>DefaultBossScript\<close>, the permutation of it
  drawn when the module loads.
\<close>

definition defaultPool :: "bossPattern list" where
  "defaultPool =
     [radialBurst, zigzagBarrage, spiralStream, crossSpread, aimedVolley, waveRings,
      curtainRain, gappedRingSweep, aimedSpiral, laserWall, inwardSpiral, sidelongZigzag]"

definition DefaultBossScript :: "(nat \<Rightarrow> real) \<Rightarrow> bossPattern list" where
  "DefaultBossScript rnd = shufflePatterns rnd defaultPool"

definition Boss1Patterns :: "bossPattern list" where
  "Boss1Patterns = [spiralStream, aimedVolley, simpleRain]"

definition Boss2Patterns :: "bossPattern list" where
  "Boss2Patterns = [radialBurst, zigzagBarrage, waveRings, crossSpread, curtainRain]"

definition Boss3Patterns :: "bossPattern list" where
  "Boss3Patterns = [laserWall, inwardSpiral, sidelongZigzag, gappedRingSweep, denseSpiral]"

definition patternLibrary :: "bossPattern list" where
  "patternLibrary = defaultPool @ Boss1Patterns @ Boss2Patterns @ Boss3Patterns"

section \<open>The boss games (part_000 and part_001)\<close>

subsection \<open>Entities\<close>

text \<open>
  The two files share their classes; \<^verbatim>\<open>part_001\<close> adds the stage counters and the boss's
  animation fields, which \<^verbatim>\<open>part_000\<close> does not have and its functions below never read.
  Here a bullet may lack \<open>vx\<close> or \<open>vy\<close> (\<^verbatim>\<open>vx?: number\<close>), and \<^verbatim>\<open>updateBullets\<close> tests for it.
\<close>

datatype jsError = TypeError


record shot = box +
  shotSpeed :: real
  shotType :: owner
  shotVx :: "real option"
  shotVy :: "real option"

record legacyEnemy = box +
  lhealth :: int
  lmaxHealth :: int
  lbullets :: "shot list"

record stageBoss = box +
  sHealth :: int
  sMaxHealth :: int
  sBullets :: "shot list"
  spriteWidth :: real
  spriteHeight :: real
  frameWidth :: real
  frameHeight :: real
  currentFrame :: nat
  animationSpeed :: real
  lastFrameTime :: real
  totalFrames :: nat
  framesPerRow :: nat

record pilot = box +
  pilotSpeed :: real
  pilotBullets :: "shot list"
  pilotLastShot :: real
  pilotCooldown :: real

record bossGame =
  running :: bool
  paused :: bool
  gscore :: int
  glives :: int
  level :: int
  stage :: int
  maxStage :: int
  thePilot :: pilot
  legacyEnemies :: "legacyEnemy list"
  curBoss :: "stageBoss option"
  invulnerableUntil :: real
  patternIndex :: nat
  patternElapsed :: real
  screenShown :: bool
  screenTitle :: string

text \<open>
  A function that may throw returns \<open>Inr\<close> of the new state, or \<open>Inl\<close> of the error with the
  state as the code had left it when it threw: an exception undoes nothing.
\<close>

type_synonym outcome = "(jsError \<times> bossGame) + bossGame"

subsection \<open>updateBoss: the pattern scheduler\<close>










subsection \<open>updateBullets\<close>

text \<open>
  \<^verbatim>\<open>filter\<close> runs its callback on every bullet in order; the callback moves the bullet and
  answers whether it stays.
\<close>

definition movePlayerShot :: "shot \<Rightarrow> shot" where
  "movePlayerShot b =
     (case (shotVx b, shotVy b) of
        (Some dx, Some dy) \<Rightarrow> b\<lparr>xpos := xpos b + dx, ypos := ypos b + dy\<rparr>
      | _ \<Rightarrow> b\<lparr>ypos := ypos b - shotSpeed b\<rparr>)"

definition keepPlayerShot :: "real \<Rightarrow> shot \<Rightarrow> bool" where
  "keepPlayerShot W b \<longleftrightarrow> ypos b > - height b \<and> xpos b \<ge> -20 \<and> xpos b \<le> W + 20"

definition moveBossShot :: "shot \<Rightarrow> shot" where
  "moveBossShot b =
     (case (shotVx b, shotVy b) of
        (Some dx, Some dy) \<Rightarrow> b\<lparr>xpos := xpos b + dx, ypos := ypos b + dy\<rparr>
      | _ \<Rightarrow> b\<lparr>ypos := ypos b + shotSpeed b\<rparr>)"

definition keepBossShot :: "real \<Rightarrow> shot \<Rightarrow> bool" where
  "keepBossShot H b \<longleftrightarrow> ypos b < H + height b \<and> ypos b > - height b - 10"

definition updateBulletsB :: "real \<Rightarrow> real \<Rightarrow> bossGame \<Rightarrow> bossGame" where
  "updateBulletsB W H g =
     g\<lparr>thePilot := (thePilot g)\<lparr>pilotBullets :=
          filter (keepPlayerShot W) (map movePlayerShot (pilotBullets (thePilot g)))\<rparr>,
       curBoss := map_option
          (\<lambda>b. b\<lparr>sBullets := filter (keepBossShot H) (map moveBossShot (sBullets b))\<rparr>)
          (curBoss g)\<rparr>"

subsection \<open>updateCollisions\<close>

definition gameOver :: "bossGame \<Rightarrow> bossGame" where
  "gameOver g = g\<lparr>running := False, screenShown := True\<rparr>"

definition gameWin :: "bossGame \<Rightarrow> bossGame" where
  "gameWin g = g\<lparr>running := False, screenShown := True, screenTitle := ''Victory!''\<rparr>"

text \<open>
  Player bullets against the legacy enemies: two nested \<^verbatim>\<open>forEach\<close>. A \<^verbatim>\<open>forEach\<close> fixes
  its number of rounds when it starts and skips an index the array no longer has; the
  last but one argument of each loop is the number of rounds left. There is no \<^verbatim>\<open>break\<close>:
  the bullet object taken at the start of the round is tested against every enemy, and
  each overlap splices the player's array at the round's index.
\<close>

definition enemyCallback :: "shot \<Rightarrow> nat \<Rightarrow> nat \<Rightarrow> bossGame \<Rightarrow> bossGame" where
  "enemyCallback bullet bulletIndex enemyIndex g =
     (let e = legacyEnemies g ! enemyIndex
      in if checkRectCollision bullet e
         then (let g1 = g\<lparr>thePilot := (thePilot g)\<lparr>pilotBullets :=
                           splice1 bulletIndex (pilotBullets (thePilot g))\<rparr>\<rparr>;
                   e1 = e\<lparr>lhealth := lhealth e - 1\<rparr>;
                   g2 = g1\<lparr>legacyEnemies := (legacyEnemies g1)[enemyIndex := e1]\<rparr>
               in if lhealth e1 \<le> 0
                  then g2\<lparr>legacyEnemies := splice1 enemyIndex (legacyEnemies g2),
                          gscore := gscore g2 + 100\<rparr>
                  else g2)
         else g)"

fun enemiesForEach :: "shot \<Rightarrow> nat \<Rightarrow> nat \<Rightarrow> nat \<Rightarrow> bossGame \<Rightarrow> bossGame" where
  "enemiesForEach bullet bulletIndex j 0 g = g"
| "enemiesForEach bullet bulletIndex j (Suc r) g =
     enemiesForEach bullet bulletIndex (Suc j) r
       (if j < length (legacyEnemies g) then enemyCallback bullet bulletIndex j g else g)"

fun bulletsForEach :: "nat \<Rightarrow> nat \<Rightarrow> bossGame \<Rightarrow> bossGame" where
  "bulletsForEach k 0 g = g"
| "bulletsForEach k (Suc r) g =
     bulletsForEach (Suc k) r
       (if k < length (pilotBullets (thePilot g))
        then enemiesForEach (pilotBullets (thePilot g) ! k) k 0 (length (legacyEnemies g)) g
        else g)"

definition playerVsEnemies :: "bossGame \<Rightarrow> bossGame" where
  "playerVsEnemies g = bulletsForEach 0 (length (pilotBullets (thePilot g))) g"

definition hitbox :: "pilot \<Rightarrow> box" where
  "hitbox p =
     \<lparr>xpos = xpos p + width p / 2 - playerHitboxRadius,
      ypos = ypos p + height p / 2 - playerHitboxRadius,
      width = playerHitboxRadius * 2,
      height = playerHitboxRadius * 2\<rparr>"

text \<open>
  The invulnerability gate of \<^verbatim>\<open>part_000\<close> (1.2 s), for a hit at clock reading \<open>now\<close>.
\<close>

definition registerHit000 :: "real \<Rightarrow> bossGame \<Rightarrow> bossGame" where
  "registerHit000 now g =
     (if now \<ge> invulnerableUntil g
      then (let g1 = g\<lparr>glives := glives g - 1, invulnerableUntil := now + 1200\<rparr>
            in if glives g1 \<le> 0 then gameOver g1 else g1)
      else g)"

text \<open>
  Boss bullets against the player in \<^verbatim>\<open>part_000\<close>: a bullet on the hit box is spliced out
  first, then the gate decides. \<open>clock k\<close> is what \<^verbatim>\<open>Date.now()\<close> returns in round \<open>k\<close>. The
  loop runs under \<^verbatim>\<open>if (this.boss)\<close> and never changes \<^verbatim>\<open>this.boss\<close>.
\<close>

definition hitCallback000 :: "(nat \<Rightarrow> real) \<Rightarrow> nat \<Rightarrow> stageBoss \<Rightarrow> bossGame \<Rightarrow> bossGame" where
  "hitCallback000 clock k b g =
     (if checkRectCollision (sBullets b ! k) (hitbox (thePilot g))
      then registerHit000 (clock k) (g\<lparr>curBoss := Some (b\<lparr>sBullets := splice1 k (sBullets b)\<rparr>)\<rparr>)
      else g)"

fun hitsForEach000 :: "(nat \<Rightarrow> real) \<Rightarrow> nat \<Rightarrow> nat \<Rightarrow> bossGame \<Rightarrow> bossGame" where
  "hitsForEach000 clock k 0 g = g"
| "hitsForEach000 clock k (Suc r) g =
     hitsForEach000 clock (Suc k) r
       (case curBoss g of
          None \<Rightarrow> g
        | Some b \<Rightarrow> if k < length (sBullets b) then hitCallback000 clock k b g else g)"

definition bossVsPlayer000 :: "(nat \<Rightarrow> real) \<Rightarrow> bossGame \<Rightarrow> bossGame" where
  "bossVsPlayer000 clock g =
     (case curBoss g of
        None \<Rightarrow> g
      | Some b \<Rightarrow> hitsForEach000 clock 0 (length (sBullets b)) g)"

text \<open>
  Player bullets against the boss in \<^verbatim>\<open>part_000\<close>. Each round reads \<^verbatim>\<open>this.boss!.x\<close>: once
  the boss is gone, a further round throws.
\<close>

definition bossCallback000 :: "nat \<Rightarrow> bossGame \<Rightarrow> outcome" where
  "bossCallback000 k g =
     (case curBoss g of
        None \<Rightarrow> Inl (TypeError, g)
      | Some b \<Rightarrow>
          if checkRectCollision (pilotBullets (thePilot g) ! k)
               \<lparr>xpos = xpos b, ypos = ypos b, width = width b, height = height b\<rparr>
          then (let g1 = g\<lparr>thePilot := (thePilot g)\<lparr>pilotBullets :=
                            splice1 k (pilotBullets (thePilot g))\<rparr>\<rparr>;
                    b1 = b\<lparr>sHealth := sHealth b - 1\<rparr>
                in if sHealth b1 \<le> 0
                   then Inr (gameOver (g1\<lparr>curBoss := None\<rparr>))
                   else Inr (g1\<lparr>curBoss := Some b1\<rparr>))
          else Inr g)"

fun shotsForEach000 :: "nat \<Rightarrow> nat \<Rightarrow> bossGame \<Rightarrow> outcome" where
  "shotsForEach000 k 0 g = Inr g"
| "shotsForEach000 k (Suc r) g =
     (if k < length (pilotBullets (thePilot g))
      then (case bossCallback000 k g of
              Inl e \<Rightarrow> Inl e
            | Inr g1 \<Rightarrow> shotsForEach000 (Suc k) r g1)
      else shotsForEach000 (Suc k) r g)"

definition playerVsBoss000 :: "bossGame \<Rightarrow> outcome" where
  "playerVsBoss000 g =
     (case curBoss g of
        None \<Rightarrow> Inr g
      | Some b \<Rightarrow> shotsForEach000 0 (length (pilotBullets (thePilot g))) g)"

definition updateCollisions000 :: "(nat \<Rightarrow> real) \<Rightarrow> bossGame \<Rightarrow> outcome" where
  "updateCollisions000 clock g = playerVsBoss000 (bossVsPlayer000 clock (playerVsEnemies g))"

text \<open>\<^verbatim>\<open>part_001\<close>: \<^verbatim>\<open>spawnBoss(stage)\<close> on a canvas of width \<open>W\<close>.\<close>

definition healthValues :: "int list" where
  "healthValues = [1000, 1500, 2000]"

record spriteConfig =
  cfgSpriteWidth :: real
  cfgSpriteHeight :: real
  cfgFrameWidth :: real
  cfgFrameHeight :: real
  cfgTotalFrames :: nat
  cfgFramesPerRow :: nat

definition bossConfigs :: "spriteConfig list" where
  "bossConfigs =
     [\<lparr>cfgSpriteWidth = 273, cfgSpriteHeight = 138, cfgFrameWidth = 68, cfgFrameHeight = 69,
       cfgTotalFrames = 8, cfgFramesPerRow = 4\<rparr>,
      \<lparr>cfgSpriteWidth = 271, cfgSpriteHeight = 135, cfgFrameWidth = 68, cfgFrameHeight = 67,
       cfgTotalFrames = 8, cfgFramesPerRow = 4\<rparr>,
      \<lparr>cfgSpriteWidth = 273, cfgSpriteHeight = 70, cfgFrameWidth = 68, cfgFrameHeight = 70,
       cfgTotalFrames = 4, cfgFramesPerRow = 4\<rparr>]"

text \<open>
  Outside stages 1 to 3, \<^verbatim>\<open>bossConfigs[stage - 1]\<close> is \<^verbatim>\<open>undefined\<close> and reading
  \<^verbatim>\<open>config.spriteWidth\<close> throws before the boss is assigned.
\<close>

definition spawnBoss :: "real \<Rightarrow> int \<Rightarrow> bossGame \<Rightarrow> outcome" where
  "spawnBoss W st g =
     (if 1 \<le> st \<and> st \<le> 3
      then (let config = bossConfigs ! nat (st - 1)
            in Inr (g\<lparr>curBoss := Some
                      \<lparr>xpos = W / 2 - 48, ypos = 40, width = 96, height = 96,
                       sHealth = healthValues ! nat (st - 1),
                       sMaxHealth = healthValues ! nat (st - 1),
                       sBullets = [],
                       spriteWidth = cfgSpriteWidth config,
                       spriteHeight = cfgSpriteHeight config,
                       frameWidth = cfgFrameWidth config,
                       frameHeight = cfgFrameHeight config,
                       currentFrame = 0, animationSpeed = 150, lastFrameTime = 0,
                       totalFrames = cfgTotalFrames config,
                       framesPerRow = cfgFramesPerRow config\<rparr>,
                    patternIndex := 0, patternElapsed := 0\<rparr>))
      else Inl (TypeError, g))"

text \<open>The gate of \<^verbatim>\<open>part_001\<close> (2 s), with the bomb that empties the boss's bullet list.\<close>

definition registerHit001 :: "real \<Rightarrow> bossGame \<Rightarrow> bossGame" where
  "registerHit001 now g =
     (if now \<ge> invulnerableUntil g
      then (let g1 = g\<lparr>glives := glives g - 1, invulnerableUntil := now + 2000,
                      curBoss := map_option (\<lambda>b. b\<lparr>sBullets := []\<rparr>) (curBoss g)\<rparr>
            in if glives g1 \<le> 0 then gameOver g1 else g1)
      else g)"

text \<open>
  Boss bullets against the player in \<^verbatim>\<open>part_001\<close>: nothing is spliced, and the bomb assigns
  a new array, so the \<^verbatim>\<open>forEach\<close> walks the whole array it started on. The first argument
  after the clock is the round's index.
\<close>

fun hitsForEach001 :: "(nat \<Rightarrow> real) \<Rightarrow> nat \<Rightarrow> shot list \<Rightarrow> bossGame \<Rightarrow> bossGame" where
  "hitsForEach001 clock k [] g = g"
| "hitsForEach001 clock k (bullet # rest) g =
     hitsForEach001 clock (Suc k) rest
       (if checkRectCollision bullet (hitbox (thePilot g))
        then registerHit001 (clock k) g
        else g)"

definition bossVsPlayer001 :: "(nat \<Rightarrow> real) \<Rightarrow> bossGame \<Rightarrow> bossGame" where
  "bossVsPlayer001 clock g =
     (case curBoss g of
        None \<Rightarrow> g
      | Some b \<Rightarrow> hitsForEach001 clock 0 (sBullets b) g)"

text \<open>
  Player bullets against the boss in \<^verbatim>\<open>part_001\<close>: the defeat of a boss, with the next
  boss or the victory.
\<close>

definition bossDefeated :: "real \<Rightarrow> bossGame \<Rightarrow> outcome" where
  "bossDefeated W g =
     (let g1 = g\<lparr>gscore := gscore g + 1000, glives := glives g + 1, stage := stage g + 1\<rparr>
      in if stage g1 \<le> maxStage g1
         then spawnBoss W (stage g1) g1
         else Inr (gameWin (g1\<lparr>curBoss := None\<rparr>)))"

definition bossCallback001 :: "real \<Rightarrow> nat \<Rightarrow> bossGame \<Rightarrow> outcome" where
  "bossCallback001 W k g =
     (case curBoss g of
        None \<Rightarrow> Inl (TypeError, g)
      | Some b \<Rightarrow>
          if checkRectCollision (pilotBullets (thePilot g) ! k)
               \<lparr>xpos = xpos b, ypos = ypos b, width = width b, height = height b\<rparr>
          then (let g1 = g\<lparr>thePilot := (thePilot g)\<lparr>pilotBullets :=
                            splice1 k (pilotBullets (thePilot g))\<rparr>\<rparr>;
                    b1 = b\<lparr>sHealth := sHealth b - 2\<rparr>;
                    g2 = g1\<lparr>curBoss := Some b1\<rparr>
                in if sHealth b1 \<le> 0 then bossDefeated W g2 else Inr g2)
          else Inr g)"

fun shotsForEach001 :: "real \<Rightarrow> nat \<Rightarrow> nat \<Rightarrow> bossGame \<Rightarrow> outcome" where
  "shotsForEach001 W k 0 g = Inr g"
| "shotsForEach001 W k (Suc r) g =
     (if k < length (pilotBullets (thePilot g))
      then (case bossCallback001 W k g of
              Inl e \<Rightarrow> Inl e
            | Inr g1 \<Rightarrow> shotsForEach001 W (Suc k) r g1)
      else shotsForEach001 W (Suc k) r g)"

definition playerVsBoss001 :: "real \<Rightarrow> bossGame \<Rightarrow> outcome" where
  "playerVsBoss001 W g =
     (case curBoss g of
        None \<Rightarrow> Inr g
      | Some b \<Rightarrow> shotsForEach001 W 0 (length (pilotBullets (thePilot g))) g)"

definition updateCollisions001 :: "real \<Rightarrow> (nat \<Rightarrow> real) \<Rightarrow> bossGame \<Rightarrow> outcome" where
  "updateCollisions001 W clock g = playerVsBoss001 W (bossVsPlayer001 clock (playerVsEnemies g))"

section \<open>Concrete states\<close>

text \<open>A hostile bullet centred on the player of \<open>startedGame\<close>, in the orphan pool.\<close>

definition overPlayer :: game where
  "overPlayer = startedGame\<lparr>orphanBullets := [enemyShot 325 893 21]\<rparr>"

text \<open>A fairy centred on the player that has just fired its straight-down shot.\<close>

definition fairyOverPlayer :: "game \<Rightarrow> game" where
  "fairyOverPlayer g = g\<lparr>enemies := [fairy 303 871 4 [enemyShot 325 893 22]]\<rparr>"

text \<open>Two player bullets inside the box of one fairy.\<close>

definition twoShots :: game where
  "twoShots = startedGame\<lparr>thePlayer := (thePlayer startedGame)\<lparr>pbullets :=
                  [playerShot 100 100 11, playerShot 115 100 12]\<rparr>,
                enemies := [fairy 90 90 4 []]\<rparr>"

text \<open>The boss \<^verbatim>\<open>spawnBoss(1)\<close> builds on a canvas 640 wide.\<close>

definition stageOneBoss :: stageBoss where
  "stageOneBoss =
     \<lparr>xpos = 640 / 2 - 48, ypos = 40, width = 96, height = 96,
      sHealth = 1000, sMaxHealth = 1000, sBullets = [],
      spriteWidth = 273, spriteHeight = 138, frameWidth = 68, frameHeight = 69,
      currentFrame = 0, animationSpeed = 150, lastFrameTime = 0,
      totalFrames = 8, framesPerRow = 4\<rparr>"

text \<open>The state \<^verbatim>\<open>startGame\<close> of \<^verbatim>\<open>part_001\<close> sets up, on a canvas of 640 by 480.\<close>

definition startedBossGame :: bossGame where
  "startedBossGame =
     \<lparr>running = True, paused = False, gscore = 0, glives = 5, level = 1,
      stage = 1, maxStage = 3,
      thePilot = \<lparr>xpos = 640 / 2 - 16, ypos = 480 - 70, width = 32, height = 40,
                  pilotSpeed = 5, pilotBullets = [], pilotLastShot = 0, pilotCooldown = 150\<rparr>,
      legacyEnemies = [], curBoss = Some stageOneBoss,
      invulnerableUntil = 0, patternIndex = 0, patternElapsed = 0,
      screenShown = False, screenTitle = ''Game Over!''\<rparr>"

text \<open>A player bullet as \<^verbatim>\<open>playerShoot\<close> builds it, at a given place with a given velocity.\<close>

definition pilotShot :: "real \<Rightarrow> real \<Rightarrow> real \<Rightarrow> real \<Rightarrow> shot" where
  "pilotShot x y dx dy =
     \<lparr>xpos = x, ypos = y, width = 4, height = 8,
      shotSpeed = 7, shotType = PlayerOwned, shotVx = Some dx, shotVy = Some dy\<rparr>"

text \<open>A boss pattern bullet in flight, at a given place with a given velocity.\<close>

definition bossShot :: "real \<Rightarrow> real \<Rightarrow> real \<Rightarrow> real \<Rightarrow> shot" where
  "bossShot x y dx dy =
     \<lparr>xpos = x, ypos = y, width = 4, height = 8,
      shotSpeed = 2, shotType = EnemyOwned, shotVx = Some dx, shotVy = Some dy\<rparr>"

text \<open>
  The last hit on a boss: one player bullet inside the boss's box, the boss at health 2
  with two bullets in flight, in stage \<open>n\<close>.
\<close>

definition lastHit :: "int \<Rightarrow> bossGame" where
  "lastHit n =
     startedBossGame
       \<lparr>stage := n,
        thePilot := (thePilot startedBossGame)\<lparr>pilotBullets := [pilotShot 300 100 0 (-7)]\<rparr>,
        curBoss := Some (stageOneBoss\<lparr>sHealth := 2,
                           sBullets := [bossShot 320 300 0 2, bossShot 100 200 1 2]\<rparr>)\<rparr>"

text \<open>A boss bullet on the hit box of the player of \<open>startedBossGame\<close>.\<close>

definition underFire :: bossGame where
  "underFire = startedBossGame\<lparr>curBoss := Some (stageOneBoss\<lparr>sBullets := [bossShot 318 428 0 2]\<rparr>)\<rparr>"


text \<open>A player bullet already below a canvas of height 480, still moving down.\<close>

definition strayShot :: bossGame where
  "strayShot = startedBossGame\<lparr>thePilot := (thePilot startedBossGame)\<lparr>pilotBullets :=
                  [pilotShot 300 600 0 7]\<rparr>\<rparr>"




text \<open>
  Three player bullets inside the box of a boss at health 2, in stage \<open>n\<close>: the first one
  defeats it.
\<close>

definition volley :: "int \<Rightarrow> bossGame" where
  "volley n =
     startedBossGame
       \<lparr>stage := n,
        thePilot := (thePilot startedBossGame)\<lparr>pilotBullets :=
          [pilotShot 300 100 0 (-7), pilotShot 310 100 0 (-7), pilotShot 320 100 0 (-7)]\<rparr>,
        curBoss := Some (stageOneBoss\<lparr>sHealth := 2\<rparr>)\<rparr>"

text \<open>Two legacy enemies overlapping each other, one player bullet inside both.\<close>

definition legacyFairy :: "real \<Rightarrow> real \<Rightarrow> int \<Rightarrow> legacyEnemy" where
  "legacyFairy x y h =
     \<lparr>xpos = x, ypos = y, width = 32, height = 40, lhealth = h, lmaxHealth = h, lbullets = []\<rparr>"

definition crowded :: bossGame where
  "crowded =
     startedBossGame
       \<lparr>thePilot := (thePilot startedBossGame)\<lparr>pilotBullets :=
          [pilotShot 110 100 0 (-7), pilotShot 500 300 0 (-7)]\<rparr>,
        legacyEnemies := [legacyFairy 100 90 3, legacyFairy 105 95 3]\<rparr>"

section \<open>Properties of the scrolling shooter\<close>

subsection \<open>The cull loop is a filter of the moved bullets\<close>

lemma splice1_append: "length xs = i \<Longrightarrow> splice1 i (xs @ y # ys) = xs @ ys"
  by (simp add: splice1_def)

lemma cullLoop_prefix:
  "cullLoop W H (length xs) (xs @ ys) =
     filter (\<lambda>b. \<not> offScreen W H b) (map moveBullet xs) @ ys"
proof (induction xs arbitrary: ys rule: rev_induct)
  case Nil
  show ?case by simp
next
  case (snoc x xs)
  have nth: "(xs @ x # ys) ! length xs = x" by simp
  have upd: "(xs @ x # ys)[length xs := moveBullet x] = xs @ moveBullet x # ys" by simp
  show ?case
  proof (cases "offScreen W H (moveBullet x)")
    case True
    then show ?thesis
      using snoc.IH [of ys] by (simp add: nth upd splice1_append)
  next
    case False
    then show ?thesis
      using snoc.IH [of "moveBullet x # ys"] by (simp add: nth upd)
  qed
qed

lemma updatePool_filter:
  "updatePool W H bs = filter (\<lambda>b. \<not> offScreen W H b) (map moveBullet bs)"
  using cullLoop_prefix [of W H bs "[]"] by (simp add: updatePool_def)

subsection \<open>Orphan bullets\<close>

lemma updateUI_orphans [simp]: "orphanBullets (updateUI g) = orphanBullets g"
  by (simp add: updateUI_def)

lemma updateUI_enemies [simp]: "enemies (updateUI g) = enemies g"
  by (simp add: updateUI_def)

lemma playerHit_orphans: "orphanBullets (playerHit g) = []"
  by (simp add: playerHit_def Let_def showGameOver_def)

lemma playerHit_lives: "score g < nextExtend g \<Longrightarrow> lives (playerHit g) = lives g - 1"
  by (simp add: playerHit_def Let_def showGameOver_def updateUI_def)

lemma orphansVsPlayer_hit:
  "n \<le> length (orphanBullets g) \<Longrightarrow> \<exists>j<n. hitsPlayer pcx pcy (orphanBullets g ! j) \<Longrightarrow>
   orphansVsPlayer pcx pcy n g = playerHit g"
proof (induction n)
  case 0
  then show ?case by simp
next
  case (Suc n)
  show ?case
  proof (cases "hitsPlayer pcx pcy (orphanBullets g ! n)")
    case True
    then show ?thesis by (simp add: Let_def playerHit_orphans splice1_def)
  next
    case False
    with Suc.prems obtain j where "j < n" "hitsPlayer pcx pcy (orphanBullets g ! j)"
      by (metis less_Suc_eq)
    with Suc False show ?thesis by auto
  qed
qed

lemma splice1_nth_before: "j < i \<Longrightarrow> i < length xs \<Longrightarrow> splice1 i xs ! j = xs ! j"
  by (simp add: splice1_def nth_append)

lemma enemyLoop_orphans:
  "n \<le> length (enemies g) \<Longrightarrow>
   orphanBullets (enemyLoop adv H n g) =
     orphanBullets g @
     concat (map ebullets (filter (\<lambda>e. health e \<le> 0) (rev (map (\<lambda>i. adv i (enemies g ! i)) [0..<n]))))"
proof (induction n arbitrary: g)
  case 0
  then show ?case by simp
next
  case (Suc n)
  define e where "e = adv n (enemies g ! n)"
  define g1 where "g1 = g\<lparr>enemies := (enemies g)[n := e]\<rparr>"
  define g' where "g' =
     (if ypos e > H + 50 \<or> health e \<le> 0
      then (let g2 = (if health e \<le> 0
                      then updateUI (g1\<lparr>orphanBullets := orphanBullets g1 @ ebullets e,
                                         score := score g1 + 100\<rparr>)
                      else g1)
            in g2\<lparr>enemies := splice1 n (enemies g2)\<rparr>)
      else g1)"
  have step: "enemyLoop adv H (Suc n) g = enemyLoop adv H n g'"
    by (simp add: g'_def g1_def e_def Let_def)
  have len: "n \<le> length (enemies g')"
    using Suc.prems by (auto simp add: g'_def g1_def Let_def splice1_def)
  have pre: "enemies g' ! i = enemies g ! i" if "i < n" for i
    using Suc.prems that by (auto simp add: g'_def g1_def Let_def splice1_nth_before)
  have orph: "orphanBullets g' = orphanBullets g @ (if health e \<le> 0 then ebullets e else [])"
    by (auto simp add: g'_def g1_def Let_def)
  have same: "map (\<lambda>i. adv i (enemies g' ! i)) [0..<n] = map (\<lambda>i. adv i (enemies g ! i)) [0..<n]"
    using pre by simp
  have "orphanBullets (enemyLoop adv H n g') =
     orphanBullets g' @
     concat (map ebullets (filter (\<lambda>e. health e \<le> 0) (rev (map (\<lambda>i. adv i (enemies g' ! i)) [0..<n]))))"
    by (rule Suc.IH [OF len])
  then show ?case
    unfolding step same orph by (simp add: e_def)
qed


lemma enemyLoop_survivors:
  "n \<le> length (enemies g) \<Longrightarrow>
   enemies (enemyLoop adv H n g) =
     filter (\<lambda>e. \<not> (ypos e > H + 50 \<or> health e \<le> 0)) (map (\<lambda>i. adv i (enemies g ! i)) [0..<n])
     @ drop n (enemies g)"
proof (induction n arbitrary: g)
  case 0
  then show ?case by simp
next
  case (Suc n)
  define e where "e = adv n (enemies g ! n)"
  define g1 where "g1 = g\<lparr>enemies := (enemies g)[n := e]\<rparr>"
  define g' where "g' =
     (if ypos e > H + 50 \<or> health e \<le> 0
      then (let g2 = (if health e \<le> 0
                      then updateUI (g1\<lparr>orphanBullets := orphanBullets g1 @ ebullets e,
                                         score := score g1 + 100\<rparr>)
                      else g1)
            in g2\<lparr>enemies := splice1 n (enemies g2)\<rparr>)
      else g1)"
  have step: "enemyLoop adv H (Suc n) g = enemyLoop adv H n g'"
    by (simp add: g'_def g1_def e_def Let_def)
  have len: "n \<le> length (enemies g')"
    using Suc.prems by (auto simp add: g'_def g1_def Let_def splice1_def)
  have pre: "enemies g' ! i = enemies g ! i" if "i < n" for i
    using Suc.prems that by (auto simp add: g'_def g1_def Let_def splice1_nth_before)
  have same: "map (\<lambda>i. adv i (enemies g' ! i)) [0..<n] = map (\<lambda>i. adv i (enemies g ! i)) [0..<n]"
    using pre by simp
  have rest: "drop n (enemies g') =
      (if ypos e > H + 50 \<or> health e \<le> 0 then [] else [e]) @ drop (Suc n) (enemies g)"
    using Suc.prems by (auto simp add: g'_def g1_def Let_def splice1_def
        Cons_nth_drop_Suc [symmetric] upd_conv_take_nth_drop)
  have "enemies (enemyLoop adv H n g') =
     filter (\<lambda>e. \<not> (ypos e > H + 50 \<or> health e \<le> 0)) (map (\<lambda>i. adv i (enemies g' ! i)) [0..<n])
     @ drop n (enemies g')"
    by (rule Suc.IH [OF len])
  then show ?case
    unfolding step same rest by (simp add: e_def)
qed

lemma updateBullets_orphans: "orphanBullets (updateBullets W H g) = updatePool W H (orphanBullets g)"
  by (simp add: updateBullets_def)

lemma updateBullets_enemies:
  "map ebullets (enemies (updateBullets W H g)) = map (\<lambda>e. updatePool W H (ebullets e)) (enemies g)"
  by (simp add: updateBullets_def comp_def)

lemma hitsPlayer_centre: "hitsPlayer 325 899 (enemyShot 325 893 1)"
  by (simp add: hitsPlayer_def enemyShot_def playerHitboxRadius_def)

text \<open>
  Claim C4. When \<^verbatim>\<open>updateEnemies\<close> removes an enemy whose health is 0 or less, all the
  bullets it holds at that moment are appended to the orphan pool as they are (the same
  records: position, velocity and every other field), in the order of the backwards
  loop, and the enemy leaves the enemy list. \<^verbatim>\<open>updateBullets\<close> moves and culls the orphan
  pool with the very function it applies to an enemy's own bullets, and an orphan bullet
  that passes the circular test \<^verbatim>\<open>dist < playerHitboxRadius + width / 2\<close> makes the
  orphan loop of \<^verbatim>\<open>checkCollisions\<close> call \<^verbatim>\<open>playerHit\<close>, which costs a life when no extend
  is pending.
\<close>

theorem orphan_transfer:
  "orphanBullets (updateEnemies advance H g) =
     orphanBullets g @
     concat (map ebullets (filter (\<lambda>e. health e \<le> 0)
       (rev (map (\<lambda>i. advance i (enemies g ! i)) [0..<length (enemies g)]))))
   \<and> enemies (updateEnemies advance H g) =
     filter (\<lambda>e. \<not> (ypos e > H + 50 \<or> health e \<le> 0))
       (map (\<lambda>i. advance i (enemies g ! i)) [0..<length (enemies g)])
   \<and> orphanBullets (updateBullets W H g) = updatePool W H (orphanBullets g)
   \<and> map ebullets (enemies (updateBullets W H g)) = map (\<lambda>e. updatePool W H (ebullets e)) (enemies g)
   \<and> (\<forall>b \<in> set (orphanBullets g). hitsPlayer pcx pcy b \<longrightarrow>
        orphansVsPlayer pcx pcy (length (orphanBullets g)) g = playerHit g
        \<and> (score g < nextExtend g \<longrightarrow> lives (playerHit g) = lives g - 1))"
proof (intro conjI ballI impI)
  show "orphanBullets (updateEnemies advance H g) =
     orphanBullets g @
     concat (map ebullets (filter (\<lambda>e. health e \<le> 0)
       (rev (map (\<lambda>i. advance i (enemies g ! i)) [0..<length (enemies g)]))))"
    unfolding updateEnemies_def by (rule enemyLoop_orphans) simp
  show "enemies (updateEnemies advance H g) =
     filter (\<lambda>e. \<not> (ypos e > H + 50 \<or> health e \<le> 0))
       (map (\<lambda>i. advance i (enemies g ! i)) [0..<length (enemies g)])"
    unfolding updateEnemies_def using enemyLoop_survivors [of "length (enemies g)" g advance H]
    by simp
  show "orphanBullets (updateBullets W H g) = updatePool W H (orphanBullets g)"
    by (rule updateBullets_orphans)
  show "map ebullets (enemies (updateBullets W H g)) = map (\<lambda>e. updatePool W H (ebullets e)) (enemies g)"
    by (rule updateBullets_enemies)
next
  fix b
  assume "b \<in> set (orphanBullets g)" and "hitsPlayer pcx pcy b"
  then have "\<exists>j<length (orphanBullets g). hitsPlayer pcx pcy (orphanBullets g ! j)"
    by (metis in_set_conv_nth)
  then show "orphansVsPlayer pcx pcy (length (orphanBullets g)) g = playerHit g"
    by (intro orphansVsPlayer_hit) simp_all
next
  assume "score g < nextExtend g"
  then show "lives (playerHit g) = lives g - 1"
    by (rule playerHit_lives)
qed

theorem orphan_transfer_witness:
  "orphanBullets (updateEnemies (\<lambda>i e. e) 960 fairyDown) = threeShots
   \<and> enemies (updateEnemies (\<lambda>i e. e) 960 fairyDown) = []
   \<and> enemyShot 325 893 1 \<in> set (orphanBullets (updateEnemies (\<lambda>i e. e) 960 fairyDown))
   \<and> hitsPlayer 325 899 (enemyShot 325 893 1)
   \<and> lives (orphansVsPlayer 325 899 3 (updateEnemies (\<lambda>i e. e) 960 fairyDown)) = 4"
proof -
  have fd: "orphanBullets fairyDown = []" "enemies fairyDown = [fairy 300 100 0 threeShots]"
    by (simp_all add: fairyDown_def startedGame_def)
  have a: "orphanBullets (updateEnemies (\<lambda>i e. e) 960 fairyDown) = threeShots"
    and e: "enemies (updateEnemies (\<lambda>i e. e) 960 fairyDown) = []"
    using orphan_transfer [where advance = "\<lambda>i e. e" and H = 960 and g = fairyDown and W = 640 and pcx = 325 and pcy = 899]
    by (simp_all add: fd fairy_def)
  define g where "g = updateEnemies (\<lambda>i e. e) 960 fairyDown"
  have sc: "score g = 100" "nextExtend g = 4000" "lives g = 5"
    by (simp_all add: g_def updateEnemies_def fd Let_def fairy_def updateUI_def fairyDown_def startedGame_def)
  have mem: "enemyShot 325 893 1 \<in> set (orphanBullets g)"
    using a by (simp add: g_def threeShots_def)
  have len3: "length (orphanBullets g) = 3"
    using a by (simp add: g_def threeShots_def)
  have both: "orphansVsPlayer 325 899 (length (orphanBullets g)) g = playerHit g
        \<and> (score g < nextExtend g \<longrightarrow> lives (playerHit g) = lives g - 1)"
    using orphan_transfer [where advance = "\<lambda>i e. e" and H = 960 and g = g and W = 640 and pcx = 325 and pcy = 899]
      mem hitsPlayer_centre by blast
  have run: "orphansVsPlayer 325 899 3 g = playerHit g"
    using both unfolding len3 by (rule conjunct1)
  have "lives (playerHit g) = lives g - 1"
    using both sc by simp
  then have "lives (orphansVsPlayer 325 899 3 g) = 4"
    unfolding run using sc by simp
  then show ?thesis
    using a e mem hitsPlayer_centre unfolding g_def by blast
qed

text \<open>
  A whole frame runs \<^verbatim>\<open>updateBullets\<close> before \<^verbatim>\<open>updateEnemies\<close>. In the frame of the transfer
  every bullet of a dying enemy has therefore been moved and culled exactly once, like the
  bullets already in the orphan pool, provided the enemy's own step fires no new bullet
  and leaves its health alone: the transfer itself skips no step and repeats none.
\<close>

lemma concat_dead_bullets:
  "concat (map ebullets (filter (\<lambda>e. health e \<le> 0) xs)) =
   concat (map snd (filter fst (map (\<lambda>e. (health e \<le> 0, ebullets e)) xs)))"
  by (induction xs) simp_all

lemma concat_dead_moved:
  "concat (map snd (filter fst (map (\<lambda>e. (health e \<le> 0, f (ebullets e))) xs))) =
   concat (map (\<lambda>e. f (ebullets e)) (filter (\<lambda>e. health e \<le> 0) xs))"
  by (induction xs) simp_all

lemma transfer_frame:
  assumes "\<And>i e. ebullets (advance i e) = ebullets e" and "\<And>i e. health (advance i e) = health e"
  shows "orphanBullets (updateEnemies advance H (updateBullets W H g)) =
           updatePool W H (orphanBullets g) @
           concat (map (\<lambda>e. updatePool W H (ebullets e))
             (filter (\<lambda>e. health e \<le> 0) (rev (enemies g))))"
proof -
  define g1 where "g1 = updateBullets W H g"
  define L where "L = map (\<lambda>i. advance i (enemies g1 ! i)) [0..<length (enemies g1)]"
  have es: "enemies g1 = map (\<lambda>e. e\<lparr>ebullets := updatePool W H (ebullets e)\<rparr>) (enemies g)"
    and orph: "orphanBullets g1 = updatePool W H (orphanBullets g)"
    by (simp_all add: g1_def updateBullets_def)
  have pairs: "map (\<lambda>e. (health e \<le> 0, ebullets e)) L =
      map (\<lambda>e. (health e \<le> 0, updatePool W H (ebullets e))) (enemies g)"
    by (rule nth_equalityI) (simp_all add: L_def es assms)
  have "concat (map ebullets (filter (\<lambda>e. health e \<le> 0) (rev L))) =
      concat (map snd (filter fst (rev (map (\<lambda>e. (health e \<le> 0, ebullets e)) L))))"
    by (simp add: concat_dead_bullets rev_map)
  also have "\<dots> = concat (map snd (filter fst
      (map (\<lambda>e. (health e \<le> 0, updatePool W H (ebullets e))) (rev (enemies g)))))"
    by (simp only: pairs rev_map)
  also have "\<dots> = concat (map (\<lambda>e. updatePool W H (ebullets e))
             (filter (\<lambda>e. health e \<le> 0) (rev (enemies g))))"
    by (rule concat_dead_moved)
  finally have dead: "concat (map ebullets (filter (\<lambda>e. health e \<le> 0) (rev L))) =
      concat (map (\<lambda>e. updatePool W H (ebullets e))
             (filter (\<lambda>e. health e \<le> 0) (rev (enemies g))))" .
  have "orphanBullets (updateEnemies advance H g1) =
      orphanBullets g1 @ concat (map ebullets (filter (\<lambda>e. health e \<le> 0) (rev L)))"
    unfolding updateEnemies_def L_def by (rule enemyLoop_orphans) simp
  then have "orphanBullets (updateEnemies advance H g1) =
      updatePool W H (orphanBullets g) @
      concat (map (\<lambda>e. updatePool W H (ebullets e))
        (filter (\<lambda>e. health e \<le> 0) (rev (enemies g))))"
    by (simp only: dead orph)
  then show ?thesis
    unfolding g1_def .
qed



subsection \<open>No invulnerability window\<close>

lemma hitsPlayer_any: "hitsPlayer 325 899 (enemyShot 325 893 n)"
  by (simp add: hitsPlayer_def enemyShot_def playerHitboxRadius_def)

lemma first_frame: "checkCollisions overPlayer = startedGame\<lparr>lives := 4\<rparr>"
  by (simp add: checkCollisions_def overPlayer_def startedGame_def Let_def
      playerBulletsVsEnemies_def playerBulletsVsBoss_def enemyBulletsVsPlayer_def
      bossBulletsVsPlayer_def hitsPlayer_any playerHit_def updateUI_def splice1_def
      bulletsVsEnemies.simps)

text \<open>
  Claim C1, as stated, fails on \<^verbatim>\<open>touhou-game.ts\<close>: \<^verbatim>\<open>playerHit\<close> has no invulnerability
  timestamp. A hostile bullet on the player costs a life in one frame, and the shot of a
  fairy over the player costs another in the very next frame, however little time has
  passed: two lives for two hits.
\<close>

theorem no_invulnerability_counterexample: "lives overPlayer = 5
   \<and> lives (checkCollisions overPlayer) = 4
   \<and> lives (checkCollisions (fairyOverPlayer (checkCollisions overPlayer))) = 3"
  unfolding first_frame
  by (simp add: checkCollisions_def fairyOverPlayer_def startedGame_def Let_def
      playerBulletsVsEnemies_def playerBulletsVsBoss_def enemyBulletsVsPlayer_def
      enemyBulletsStep_def fairy_def overPlayer_def
      bossBulletsVsPlayer_def hitsPlayer_any playerHit_def updateUI_def splice1_def spliceAt_def
      bulletsVsEnemies.simps checkRectCollision_def)


subsection \<open>Removal while iterating\<close>

text \<open>What the \<^verbatim>\<open>break\<close> gives: a bullet damages the first enemy it overlaps, and only that one.\<close>

lemma hitFirstEnemy_one:
  "hitFirstEnemy b es = Some es' \<Longrightarrow>
   \<exists>k<length es. checkRectCollision b (es ! k)
      \<and> (\<forall>j<k. \<not> checkRectCollision b (es ! j))
      \<and> es' = es[k := (es ! k)\<lparr>health := health (es ! k) - 1\<rparr>]"
proof (induction es arbitrary: es')
  case Nil
  then show ?case by simp
next
  case (Cons e es)
  show ?case
  proof (cases "checkRectCollision b e")
    case True
    with Cons.prems have "es' = e\<lparr>health := health e - 1\<rparr> # es" by simp
    with True show ?thesis by (intro exI [of _ 0]) simp
  next
    case False
    with Cons.prems obtain r where r: "hitFirstEnemy b es = Some r" "es' = e # r"
      by auto
    from Cons.IH [OF r(1)] obtain k where k: "k < length es" "checkRectCollision b (es ! k)"
      "\<forall>j<k. \<not> checkRectCollision b (es ! j)"
      "r = es[k := (es ! k)\<lparr>health := health (es ! k) - 1\<rparr>]"
      by blast
    have "\<forall>j<Suc k. \<not> checkRectCollision b ((e # es) ! j)"
      using False k(3) by (auto simp add: less_Suc_eq_0_disj)
    with k r(2) show ?thesis
      by (intro exI [of _ "Suc k"]) simp
  qed
qed

lemma bulletsVsEnemies_twoShots: "bulletsVsEnemies 0 [playerShot 100 100 11, playerShot 115 100 12] [fairy 90 90 4 []]
   = ([playerShot 115 100 12], [fairy 90 90 3 []])"
  by (simp add: bulletsVsEnemies.simps playerShot_def fairy_def checkRectCollision_def spliceAt_def splice1_def)

lemma twoShots_phase1: "playerBulletsVsEnemies twoShots =
   startedGame\<lparr>thePlayer := (thePlayer startedGame)\<lparr>pbullets := [playerShot 115 100 12]\<rparr>,
                enemies := [fairy 90 90 3 []]\<rparr>"
  by (simp add: playerBulletsVsEnemies_def twoShots_def bulletsVsEnemies_twoShots)

lemma twoShots_phase2: "playerBulletsVsBoss (playerBulletsVsEnemies twoShots) = playerBulletsVsEnemies twoShots"
  unfolding twoShots_phase1 by (simp add: playerBulletsVsBoss_def startedGame_def)

lemma twoShots_phase3: "enemyBulletsVsPlayer px py (playerBulletsVsEnemies twoShots) = playerBulletsVsEnemies twoShots"
  unfolding twoShots_phase1 by (simp add: enemyBulletsVsPlayer_def enemyBulletsStep_def fairy_def)


text \<open>
  Claim C2 at its failing input: two player bullets overlap one fairy. The first bullet
  damages the fairy and is spliced out of the array the \<^verbatim>\<open>for...of\<close> is walking; the
  iterator then steps over the second bullet, which ends the frame still in the list and
  still overlapping the fairy, unresolved.
\<close>

theorem skipped_bullet:
  "pbullets (thePlayer (checkCollisions twoShots)) = [playerShot 115 100 12]
   \<and> enemies (checkCollisions twoShots) = [fairy 90 90 3 []]
   \<and> checkRectCollision (playerShot 115 100 12) (fairy 90 90 3 [])"
proof -
  have "checkCollisions twoShots = playerBulletsVsEnemies twoShots"
    by (simp add: checkCollisions_def Let_def twoShots_phase2 twoShots_phase3)
       (simp add: twoShots_phase1 bossBulletsVsPlayer_def startedGame_def)
  then show ?thesis
    by (simp add: twoShots_phase1 fairy_def playerShot_def checkRectCollision_def)
qed


section \<open>Properties of the pattern library\<close>

text \<open>The shuffle only reorders: the script holds the patterns of the pool.\<close>

lemma draw_in_range:
  assumes "0 \<le> r" and "r < 1"
  shows "nat \<lfloor>r * (real (Suc i) + 1)\<rfloor> \<le> Suc i"
proof -
  have "r * (real (Suc i) + 1) < real (Suc i) + 1"
    using assms by (simp add: mult_less_cancel_right1)
  then have "\<lfloor>r * (real (Suc i) + 1)\<rfloor> < int (Suc i) + 1"
    by (simp add: floor_less_iff)
  then show ?thesis by linarith
qed

lemma shuffleLoop_set:
  assumes "\<forall>i. 0 \<le> rnd i \<and> rnd i < 1"
  shows "n < length a \<Longrightarrow> set (shuffleLoop rnd n a) = set a \<and> length (shuffleLoop rnd n a) = length a"
proof (induction n arbitrary: a)
  case 0
  show ?case by simp
next
  case (Suc n)
  define j where "j = nat \<lfloor>rnd (Suc n) * (real (Suc n) + 1)\<rfloor>"
  have "j \<le> Suc n"
    unfolding j_def using assms by (intro draw_in_range) simp_all
  then have j: "j < length a" using Suc.prems by simp
  define a1 where "a1 = a[Suc n := a ! j, j := a ! Suc n]"
  have a1: "set a1 = set a" "length a1 = length a"
    unfolding a1_def using j Suc.prems by simp_all
  have step: "shuffleLoop rnd (Suc n) a = shuffleLoop rnd n a1"
    unfolding a1_def j_def by (simp add: Let_def)
  have "n < length a1" using a1 Suc.prems by simp
  from Suc.IH [OF this] a1 show ?case
    unfolding step by simp
qed

lemma shufflePatterns_set:
  assumes "\<forall>i. 0 \<le> rnd i \<and> rnd i < 1"
  shows "set (shufflePatterns rnd arr) = set arr"
proof (cases arr)
  case Nil
  then show ?thesis by (simp add: shufflePatterns_def)
next
  case (Cons x xs)
  then have "length arr - 1 < length arr" by simp
  from shuffleLoop_set [OF assms this] show ?thesis
    by (simp add: shufflePatterns_def)
qed

lemma script_in_library:
  assumes "\<forall>i. 0 \<le> rnd i \<and> rnd i < 1"
  shows "set (DefaultBossScript rnd) \<subseteq> set patternLibrary"
  using shufflePatterns_set [OF assms, of defaultPool]
  by (simp add: patternLibrary_def DefaultBossScript_def)







section \<open>Properties of the boss games\<close>

subsection \<open>Boss succession\<close>

lemma bossCallback001_defeat:
  assumes "curBoss g = Some b"
    and "checkRectCollision (pilotBullets (thePilot g) ! k)
           \<lparr>xpos = xpos b, ypos = ypos b, width = width b, height = height b\<rparr>"
    and "sHealth b - 2 \<le> 0"
  shows "bossCallback001 W k g =
     bossDefeated W (g\<lparr>thePilot := (thePilot g)\<lparr>pilotBullets := splice1 k (pilotBullets (thePilot g))\<rparr>,
                       curBoss := Some (b\<lparr>sHealth := sHealth b - 2\<rparr>)\<rparr>)"
  using assms by (simp add: bossCallback001_def Let_def)

lemma spawnBoss_result:
  assumes "1 \<le> st" and "st \<le> 3"
  shows "\<exists>g' nb. spawnBoss W st g = Inr g'
           \<and> curBoss g' = Some nb
           \<and> sHealth nb = healthValues ! nat (st - 1)
           \<and> sMaxHealth nb = healthValues ! nat (st - 1)
           \<and> sBullets nb = []
           \<and> patternIndex g' = 0
           \<and> patternElapsed g' = 0
           \<and> running g' = running g
           \<and> glives g' = glives g
           \<and> gscore g' = gscore g
           \<and> stage g' = stage g
           \<and> thePilot g' = thePilot g
           \<and> legacyEnemies g' = legacyEnemies g"
  using assms by (simp add: spawnBoss_def Let_def)

lemma bossDefeated_next:
  assumes "stage g < maxStage g" and "0 \<le> stage g" and "maxStage g \<le> 3"
  shows "bossDefeated W g =
           spawnBoss W (stage g + 1)
             (g\<lparr>gscore := gscore g + 1000, glives := glives g + 1, stage := stage g + 1\<rparr>)"
  using assms by (simp add: bossDefeated_def Let_def)


lemma lastHit_facts:
  "curBoss (lastHit n) = Some (stageOneBoss\<lparr>sHealth := 2,
                           sBullets := [bossShot 320 300 0 2, bossShot 100 200 1 2]\<rparr>)"
  "pilotBullets (thePilot (lastHit n)) = [pilotShot 300 100 0 (-7)]"
  "stage (lastHit n) = n" "maxStage (lastHit n) = 3"
  "glives (lastHit n) = 5" "gscore (lastHit n) = 0" "running (lastHit n)"
  "legacyEnemies (lastHit n) = []"
  by (simp_all add: lastHit_def startedBossGame_def)

lemma lastHit_overlap:
  "checkRectCollision (pilotShot 300 100 0 (-7))
     \<lparr>xpos = xpos stageOneBoss, ypos = ypos stageOneBoss,
      width = width stageOneBoss, height = height stageOneBoss\<rparr>"
  by (simp add: checkRectCollision_def pilotShot_def stageOneBoss_def)





text \<open>
  The \<^verbatim>\<open>forEach\<close> goes on after the defeat. With three bullets inside the boss's box, the
  first defeats the boss, the second is stepped over, and the third already hits the
  successor in the same frame; after the last boss, the third finds no boss and throws,
  the game standing at Victory.
\<close>

lemma successor_damaged_same_frame:
  "\<exists>g' nb. playerVsBoss001 640 (volley 1) = Inr g'
     \<and> curBoss g' = Some nb \<and> sMaxHealth nb = 1500 \<and> sHealth nb = 1498
     \<and> pilotBullets (thePilot g') = [pilotShot 310 100 0 (-7)]
     \<and> stage g' = 2 \<and> glives g' = 6 \<and> gscore g' = 1000"
  by (simp add: playerVsBoss001_def volley_def startedBossGame_def stageOneBoss_def
      bossCallback001_def bossDefeated_def spawnBoss_def healthValues_def bossConfigs_def
      pilotShot_def checkRectCollision_def splice1_def Let_def numeral_3_eq_3)

lemma throw_after_victory:
  "\<exists>g'. playerVsBoss001 640 (volley 3) = Inl (TypeError, g')
     \<and> \<not> running g' \<and> screenShown g' \<and> screenTitle g' = ''Victory!'' \<and> curBoss g' = None"
  by (simp add: playerVsBoss001_def volley_def startedBossGame_def stageOneBoss_def
      bossCallback001_def bossDefeated_def gameWin_def
      pilotShot_def checkRectCollision_def splice1_def Let_def numeral_3_eq_3)

text \<open>
  Claim C10. In \<^verbatim>\<open>part_001\<close>, when a boss is defeated and a successor is spawned, the
  successor is a new object whose bullet list is empty; the defeated boss's bullets go
  nowhere: the legacy enemies are untouched and the player's list only loses the bullet
  that hit. The boss's list being the only hostile pool the game tests against the
  player, the next hostile collision pass changes nothing whatever the clock, and the next
  \<^verbatim>\<open>updateBullets\<close> finds the new boss with no bullet to move.
\<close>

theorem defeated_boss_bullets_dropped:
  assumes "curBoss g = Some b"
    and "k < length (pilotBullets (thePilot g))"
    and "checkRectCollision (pilotBullets (thePilot g) ! k)
           \<lparr>xpos = xpos b, ypos = ypos b, width = width b, height = height b\<rparr>"
    and "sHealth b - 2 \<le> 0"
    and "0 \<le> stage g" and "stage g < maxStage g" and "maxStage g \<le> 3"
  shows "\<exists>g' nb. bossCallback001 W k g = Inr g'
           \<and> curBoss g' = Some nb
           \<and> sBullets nb = []
           \<and> legacyEnemies g' = legacyEnemies g
           \<and> pilotBullets (thePilot g') = splice1 k (pilotBullets (thePilot g))
           \<and> bossVsPlayer001 clock g' = g'
           \<and> curBoss (updateBulletsB W' H g') = Some nb"
proof -
  define g2 where "g2 = g\<lparr>thePilot := (thePilot g)\<lparr>pilotBullets := splice1 k (pilotBullets (thePilot g))\<rparr>,
               curBoss := Some (b\<lparr>sHealth := sHealth b - 2\<rparr>)\<rparr>"
  define g3 where "g3 = g2\<lparr>gscore := gscore g2 + 1000, glives := glives g2 + 1, stage := stage g2 + 1\<rparr>"
  have cb: "bossCallback001 W k g = bossDefeated W g2"
    unfolding g2_def using assms(1,3,4) by (rule bossCallback001_defeat)
  have d: "bossDefeated W g2 = spawnBoss W (stage g2 + 1) g3"
    unfolding g3_def using bossDefeated_next [of g2 W] assms(5-7) by (simp add: g2_def)
  have "1 \<le> stage g2 + 1" "stage g2 + 1 \<le> 3"
    using assms(5-7) by (simp_all add: g2_def)
  from spawnBoss_result [OF this, of W g3]
  obtain g' nb where r: "spawnBoss W (stage g2 + 1) g3 = Inr g'" "curBoss g' = Some nb"
    "sBullets nb = []" "thePilot g' = thePilot g3" "legacyEnemies g' = legacyEnemies g3"
    by blast
  have keep: "thePilot g3 = (thePilot g)\<lparr>pilotBullets := splice1 k (pilotBullets (thePilot g))\<rparr>"
    "legacyEnemies g3 = legacyEnemies g"
    by (simp_all add: g3_def g2_def)
  have quiet: "bossVsPlayer001 clock g' = g'"
    using r(2,3) by (simp add: bossVsPlayer001_def)
  have moved: "curBoss (updateBulletsB W' H g') = Some nb"
    using r(2,3) by (simp add: updateBulletsB_def)
  show ?thesis
    unfolding cb d using r keep quiet moved by simp
qed

theorem defeated_boss_bullets_dropped_witness:
  "(\<exists>ob. curBoss (lastHit 1) = Some ob \<and> length (sBullets ob) = 2)
   \<and> (\<exists>g' nb. bossCallback001 640 0 (lastHit 1) = Inr g'
         \<and> curBoss g' = Some nb \<and> sBullets nb = []
         \<and> legacyEnemies g' = []
         \<and> pilotBullets (thePilot g') = []
         \<and> bossVsPlayer001 (\<lambda>k. 0) g' = g')"
proof -
  have "\<exists>g' nb. bossCallback001 640 0 (lastHit 1) = Inr g'
           \<and> curBoss g' = Some nb
           \<and> sBullets nb = []
           \<and> legacyEnemies g' = legacyEnemies (lastHit 1)
           \<and> pilotBullets (thePilot g') = splice1 0 (pilotBullets (thePilot (lastHit 1)))
           \<and> bossVsPlayer001 (\<lambda>k. 0) g' = g'
           \<and> curBoss (updateBulletsB 640 480 g') = Some nb"
    by (rule defeated_boss_bullets_dropped [OF lastHit_facts(1)])
       (simp_all add: lastHit_facts lastHit_overlap)
  then show ?thesis
    by (auto simp add: lastHit_facts splice1_def)
qed


subsection \<open>The legacy enemy loop\<close>

text \<open>
  The nested \<^verbatim>\<open>forEach\<close> of the boss games has no \<^verbatim>\<open>break\<close>: a bullet inside two enemies
  damages both and splices the player's array twice, taking an unrelated bullet with it.
  (Nothing ever fills \<^verbatim>\<open>this.enemies\<close> in these two files.)
\<close>

lemma legacy_double_damage:
  "pilotBullets (thePilot (playerVsEnemies crowded)) = []
   \<and> legacyEnemies (playerVsEnemies crowded) = [legacyFairy 100 90 3\<lparr>lhealth := 2\<rparr>,
                                                legacyFairy 105 95 3\<lparr>lhealth := 2\<rparr>]"
  by (simp add: playerVsEnemies_def crowded_def startedBossGame_def legacyFairy_def
      enemyCallback_def pilotShot_def checkRectCollision_def splice1_def Let_def numeral_2_eq_2)

subsection \<open>The invulnerability window\<close>

lemma registerHit000_fires:
  "invulnerableUntil g \<le> now \<Longrightarrow>
   glives (registerHit000 now g) = glives g - 1
   \<and> invulnerableUntil (registerHit000 now g) = now + 1200
   \<and> curBoss (registerHit000 now g) = curBoss g
   \<and> thePilot (registerHit000 now g) = thePilot g"
  by (simp add: registerHit000_def gameOver_def Let_def)

lemma registerHit000_gated:
  "now < invulnerableUntil g \<Longrightarrow> registerHit000 now g = g"
  by (simp add: registerHit000_def)

lemma registerHit001_fires:
  "invulnerableUntil g \<le> now \<Longrightarrow>
   glives (registerHit001 now g) = glives g - 1
   \<and> invulnerableUntil (registerHit001 now g) = now + 2000
   \<and> curBoss (registerHit001 now g) = map_option (\<lambda>b. b\<lparr>sBullets := []\<rparr>) (curBoss g)
   \<and> thePilot (registerHit001 now g) = thePilot g"
  by (simp add: registerHit001_def gameOver_def Let_def)

lemma registerHit001_gated:
  "now < invulnerableUntil g \<Longrightarrow> registerHit001 now g = g"
  by (simp add: registerHit001_def)

lemma hitCallback000_gated:
  "clock k < invulnerableUntil g \<Longrightarrow>
   glives (hitCallback000 clock k b g) = glives g
   \<and> invulnerableUntil (hitCallback000 clock k b g) = invulnerableUntil g"
  by (simp add: hitCallback000_def registerHit000_def)

lemma hitsForEach000_gated:
  "(\<And>j. clock j < invulnerableUntil g) \<Longrightarrow>
   glives (hitsForEach000 clock k r g) = glives g
   \<and> invulnerableUntil (hitsForEach000 clock k r g) = invulnerableUntil g"
proof (induction r arbitrary: k g)
  case 0
  show ?case by simp
next
  case (Suc r)
  define g1 where "g1 = (case curBoss g of
          None \<Rightarrow> g
        | Some b \<Rightarrow> if k < length (sBullets b) then hitCallback000 clock k b g else g)"
  have keep: "glives g1 = glives g \<and> invulnerableUntil g1 = invulnerableUntil g"
    using hitCallback000_gated [of clock k g] Suc.prems
    by (simp add: g1_def split: option.split)
  then have "\<And>j. clock j < invulnerableUntil g1"
    using Suc.prems by simp
  from Suc.IH [where k = "Suc k", OF this] keep show ?case
    by (simp add: g1_def)
qed

lemma hitCallback000_step:
  "(glives (hitCallback000 clock k b g) = glives g
      \<and> invulnerableUntil (hitCallback000 clock k b g) = invulnerableUntil g)
   \<or> (glives (hitCallback000 clock k b g) = glives g - 1
      \<and> invulnerableUntil (hitCallback000 clock k b g) = clock k + 1200)"
  by (simp add: hitCallback000_def registerHit000_def gameOver_def Let_def)

lemma hitsForEach000_once:
  "(\<And>i j. clock i < clock j + 1200) \<Longrightarrow>
   glives (hitsForEach000 clock k r g) = glives g
   \<or> glives (hitsForEach000 clock k r g) = glives g - 1"
proof (induction r arbitrary: k g)
  case 0
  show ?case by simp
next
  case (Suc r)
  define g1 where "g1 = (case curBoss g of
          None \<Rightarrow> g
        | Some b \<Rightarrow> if k < length (sBullets b) then hitCallback000 clock k b g else g)"
  have step: "hitsForEach000 clock k (Suc r) g = hitsForEach000 clock (Suc k) r g1"
    by (simp add: g1_def)
  have cases: "(glives g1 = glives g \<and> invulnerableUntil g1 = invulnerableUntil g)
     \<or> (glives g1 = glives g - 1 \<and> invulnerableUntil g1 = clock k + 1200)"
    using hitCallback000_step [of clock k _ g] by (auto simp add: g1_def split: option.split)
  then show ?case
  proof
    assume "glives g1 = glives g \<and> invulnerableUntil g1 = invulnerableUntil g"
    then show ?thesis
      unfolding step using Suc.IH [of "Suc k" g1] Suc.prems by auto
  next
    assume fired: "glives g1 = glives g - 1 \<and> invulnerableUntil g1 = clock k + 1200"
    then have "\<And>j. clock j < invulnerableUntil g1"
      using Suc.prems by simp
    from hitsForEach000_gated [where k = "Suc k" and r = r, OF this] fired show ?thesis
      unfolding step by simp
  qed
qed

lemma hitsForEach001_gated:
  "(\<And>j. clock j < invulnerableUntil g) \<Longrightarrow> hitsForEach001 clock k bs g = g"
  by (induction bs arbitrary: k) (simp_all add: registerHit001_gated)

lemma hitsForEach001_once:
  "(\<And>i j. clock i < clock j + 2000) \<Longrightarrow>
   glives (hitsForEach001 clock k bs g) = glives g
   \<or> glives (hitsForEach001 clock k bs g) = glives g - 1"
proof (induction bs arbitrary: k g)
  case Nil
  show ?case by simp
next
  case (Cons bullet rest)
  define g1 where "g1 = (if checkRectCollision bullet (hitbox (thePilot g))
        then registerHit001 (clock k) g else g)"
  have step: "hitsForEach001 clock k (bullet # rest) g = hitsForEach001 clock (Suc k) rest g1"
    by (simp add: g1_def)
  show ?case
  proof (cases "checkRectCollision bullet (hitbox (thePilot g)) \<and> invulnerableUntil g \<le> clock k")
    case True
    then have fired: "glives g1 = glives g - 1" "invulnerableUntil g1 = clock k + 2000"
      using registerHit001_fires [of g "clock k"] by (simp_all add: g1_def)
    then have "\<And>j. clock j < invulnerableUntil g1"
      using Cons.prems by simp
    from hitsForEach001_gated [where k = "Suc k" and bs = rest, OF this] fired show ?thesis
      unfolding step by simp
  next
    case False
    then have "g1 = g"
      by (auto simp add: g1_def registerHit001_gated)
    then show ?thesis
      unfolding step using Cons.IH [of "Suc k" g] Cons.prems by auto
  qed
qed


lemma registerHit000_boss: "curBoss (registerHit000 now g) = curBoss g"
  by (simp add: registerHit000_def gameOver_def Let_def)

lemma registerHit000_pair:
  assumes "invulnerableUntil g \<le> t1" and "t2 < t1 + 1200"
  shows "glives (registerHit000 t2 (registerHit000 t1 g)) = glives g - 1
       \<and> invulnerableUntil (registerHit000 t2 (registerHit000 t1 g)) = t1 + 1200"
proof -
  have first: "glives (registerHit000 t1 g) = glives g - 1"
    "invulnerableUntil (registerHit000 t1 g) = t1 + 1200"
    using registerHit000_fires [OF assms(1)] by simp_all
  then have "registerHit000 t2 (registerHit000 t1 g) = registerHit000 t1 g"
    using assms(2) by (intro registerHit000_gated) simp
  with first show ?thesis by simp
qed

lemma registerHit001_pair:
  assumes "invulnerableUntil g \<le> t1" and "t2 < t1 + 2000"
  shows "glives (registerHit001 t2 (registerHit001 t1 g)) = glives g - 1
       \<and> invulnerableUntil (registerHit001 t2 (registerHit001 t1 g)) = t1 + 2000"
proof -
  have first: "glives (registerHit001 t1 g) = glives g - 1"
    "invulnerableUntil (registerHit001 t1 g) = t1 + 2000"
    using registerHit001_fires [OF assms(1)] by simp_all
  then have "registerHit001 t2 (registerHit001 t1 g) = registerHit001 t1 g"
    using assms(2) by (intro registerHit001_gated) simp
  with first show ?thesis by simp
qed

lemma bossVsPlayer000_gated:
  "(\<And>j. clock j < invulnerableUntil g) \<Longrightarrow> glives (bossVsPlayer000 clock g) = glives g"
  using hitsForEach000_gated [of clock g 0]
  by (simp add: bossVsPlayer000_def split: option.split)

lemma bossVsPlayer001_gated:
  "(\<And>j. clock j < invulnerableUntil g) \<Longrightarrow> bossVsPlayer001 clock g = g"
  using hitsForEach001_gated [of clock g 0]
  by (simp add: bossVsPlayer001_def split: option.split)

lemma bossVsPlayer000_once:
  "(\<And>i j. clock i < clock j + 1200) \<Longrightarrow>
   glives (bossVsPlayer000 clock g) = glives g \<or> glives (bossVsPlayer000 clock g) = glives g - 1"
  using hitsForEach000_once [of clock 0 _ g]
  by (simp add: bossVsPlayer000_def split: option.split)

lemma bossVsPlayer001_once:
  "(\<And>i j. clock i < clock j + 2000) \<Longrightarrow>
   glives (bossVsPlayer001 clock g) = glives g \<or> glives (bossVsPlayer001 clock g) = glives g - 1"
  using hitsForEach001_once [of clock 0 _ g]
  by (simp add: bossVsPlayer001_def split: option.split)

lemma playerHit_clears:
  "orphanBullets (playerHit h) = []
   \<and> map ebullets (enemies (playerHit h)) = map (\<lambda>e. []) (enemies h)
   \<and> map_option bbullets (theBoss (playerHit h)) = map_option (\<lambda>b. []) (theBoss h)"
  by (simp add: playerHit_def Let_def showGameOver_def updateUI_def option.map_comp comp_def)

lemma underFire_facts:
  "curBoss underFire = Some (stageOneBoss\<lparr>sBullets := [bossShot 318 428 0 2]\<rparr>)"
  "invulnerableUntil underFire = 0" "glives underFire = 5"
  "checkRectCollision (bossShot 318 428 0 2) (hitbox (thePilot underFire))"
  by (simp_all add: underFire_def startedBossGame_def checkRectCollision_def bossShot_def
      hitbox_def playerHitboxRadius_def)

text \<open>
  Claim C1, amended. In the two boss games a hostile-bullet hit costs a life only when
  the clock is at or past \<open>invulnerableUntil\<close>, and then sets \<open>invulnerableUntil\<close> to the
  clock plus the window (1200 ms in \<^verbatim>\<open>part_000\<close>, 2000 ms in \<^verbatim>\<open>part_001\<close>): of two hits less
  than the window apart, the first of which registers, exactly one costs a life. A
  collision pass whose clock readings all lie before \<open>invulnerableUntil\<close> costs nothing,
  and a pass whose readings lie within one window of each other costs at most one life.
  \<^verbatim>\<open>part_000\<close> splices the colliding bullet out whether or not the hit registers;
  \<^verbatim>\<open>part_001\<close> removes it on a registered hit only, by emptying the boss's list. The
  scrolling shooter keeps no timestamp: \<^verbatim>\<open>playerHit\<close> takes a life on every hit (when no
  extend is pending) and empties every hostile pool.
\<close>

theorem invulnerability_window:
  "(invulnerableUntil g \<le> t1 \<and> t2 < t1 + 1200 \<longrightarrow>
      glives (registerHit000 t2 (registerHit000 t1 g)) = glives g - 1
      \<and> invulnerableUntil (registerHit000 t2 (registerHit000 t1 g)) = t1 + 1200)
   \<and> (invulnerableUntil g \<le> t1 \<and> t2 < t1 + 2000 \<longrightarrow>
      glives (registerHit001 t2 (registerHit001 t1 g)) = glives g - 1
      \<and> invulnerableUntil (registerHit001 t2 (registerHit001 t1 g)) = t1 + 2000)
   \<and> (checkRectCollision (sBullets b ! k) (hitbox (thePilot g)) \<longrightarrow>
      curBoss (hitCallback000 clock k b g) = Some (b\<lparr>sBullets := splice1 k (sBullets b)\<rparr>))
   \<and> (curBoss g = Some b \<and> invulnerableUntil g \<le> t1 \<longrightarrow>
      curBoss (registerHit001 t1 g) = Some (b\<lparr>sBullets := []\<rparr>))
   \<and> ((\<forall>j. clock j < invulnerableUntil g) \<longrightarrow>
      glives (bossVsPlayer000 clock g) = glives g \<and> bossVsPlayer001 clock g = g)
   \<and> ((\<forall>i j. clock i < clock j + 1200) \<longrightarrow>
      glives (bossVsPlayer000 clock g) = glives g \<or> glives (bossVsPlayer000 clock g) = glives g - 1)
   \<and> ((\<forall>i j. clock i < clock j + 2000) \<longrightarrow>
      glives (bossVsPlayer001 clock g) = glives g \<or> glives (bossVsPlayer001 clock g) = glives g - 1)
   \<and> (score h < nextExtend h \<longrightarrow> lives (playerHit h) = lives h - 1)
   \<and> orphanBullets (playerHit h) = []
   \<and> map ebullets (enemies (playerHit h)) = map (\<lambda>e. []) (enemies h)
   \<and> map_option bbullets (theBoss (playerHit h)) = map_option (\<lambda>b. []) (theBoss h)"
proof (intro conjI impI)
  assume "invulnerableUntil g \<le> t1 \<and> t2 < t1 + 1200"
  then show "glives (registerHit000 t2 (registerHit000 t1 g)) = glives g - 1"
    and "invulnerableUntil (registerHit000 t2 (registerHit000 t1 g)) = t1 + 1200"
    using registerHit000_pair [of g t1 t2] by simp_all
next
  assume "invulnerableUntil g \<le> t1 \<and> t2 < t1 + 2000"
  then show "glives (registerHit001 t2 (registerHit001 t1 g)) = glives g - 1"
    and "invulnerableUntil (registerHit001 t2 (registerHit001 t1 g)) = t1 + 2000"
    using registerHit001_pair [of g t1 t2] by simp_all
next
  assume "checkRectCollision (sBullets b ! k) (hitbox (thePilot g))"
  then show "curBoss (hitCallback000 clock k b g) = Some (b\<lparr>sBullets := splice1 k (sBullets b)\<rparr>)"
    by (simp add: hitCallback000_def registerHit000_boss)
next
  assume "curBoss g = Some b \<and> invulnerableUntil g \<le> t1"
  then show "curBoss (registerHit001 t1 g) = Some (b\<lparr>sBullets := []\<rparr>)"
    using registerHit001_fires [of g t1] by simp
next
  assume q: "\<forall>j. clock j < invulnerableUntil g"
  then show "glives (bossVsPlayer000 clock g) = glives g"
    by (intro bossVsPlayer000_gated) simp
  from q show "bossVsPlayer001 clock g = g"
    by (intro bossVsPlayer001_gated) simp
next
  assume "\<forall>i j. clock i < clock j + 1200"
  then show "glives (bossVsPlayer000 clock g) = glives g \<or> glives (bossVsPlayer000 clock g) = glives g - 1"
    by (intro bossVsPlayer000_once) simp
next
  assume "\<forall>i j. clock i < clock j + 2000"
  then show "glives (bossVsPlayer001 clock g) = glives g \<or> glives (bossVsPlayer001 clock g) = glives g - 1"
    by (intro bossVsPlayer001_once) simp
next
  assume "score h < nextExtend h"
  then show "lives (playerHit h) = lives h - 1"
    by (rule playerHit_lives)
next
  show "orphanBullets (playerHit h) = []"
    and "map ebullets (enemies (playerHit h)) = map (\<lambda>e. []) (enemies h)"
    and "map_option bbullets (theBoss (playerHit h)) = map_option (\<lambda>b. []) (theBoss h)"
    using playerHit_clears [of h] by simp_all
qed


theorem invulnerability_window_witness:
  "glives (registerHit000 5600 (registerHit000 5000 underFire)) = 4
   \<and> invulnerableUntil (registerHit000 5600 (registerHit000 5000 underFire)) = 6200
   \<and> glives (registerHit001 5600 (registerHit001 5000 underFire)) = 4
   \<and> invulnerableUntil (registerHit001 5600 (registerHit001 5000 underFire)) = 7000
   \<and> curBoss (hitCallback000 (\<lambda>k. 5000) 0 (stageOneBoss\<lparr>sBullets := [bossShot 318 428 0 2]\<rparr>) underFire)
       = Some (stageOneBoss\<lparr>sBullets := []\<rparr>)
   \<and> curBoss (registerHit001 5000 underFire) = Some (stageOneBoss\<lparr>sBullets := []\<rparr>)
   \<and> glives (bossVsPlayer000 (\<lambda>k. 5600) (underFire\<lparr>invulnerableUntil := 6200\<rparr>)) = 5
   \<and> bossVsPlayer001 (\<lambda>k. 5600) (underFire\<lparr>invulnerableUntil := 6200\<rparr>)
       = underFire\<lparr>invulnerableUntil := 6200\<rparr>
   \<and> (glives (bossVsPlayer000 (\<lambda>k. 5000) underFire) = 5
       \<or> glives (bossVsPlayer000 (\<lambda>k. 5000) underFire) = 4)
   \<and> (glives (bossVsPlayer001 (\<lambda>k. 5000) underFire) = 5
       \<or> glives (bossVsPlayer001 (\<lambda>k. 5000) underFire) = 4)
   \<and> lives (playerHit startedGame) = 4"
proof -
  let ?b = "stageOneBoss\<lparr>sBullets := [bossShot 318 428 0 2]\<rparr>"
  note a = invulnerability_window [of underFire 5000 5600 ?b 0 "\<lambda>k. 5000" startedGame]
  note b = invulnerability_window [of "underFire\<lparr>invulnerableUntil := 6200\<rparr>" 5000 5600 ?b 0
      "\<lambda>k. 5600" startedGame]
  have sg: "score startedGame < nextExtend startedGame" "lives startedGame = 5"
    by (simp_all add: startedGame_def)
  have sp: "splice1 0 [bossShot 318 428 0 2] = []"
    by (simp add: splice1_def)
  from a have
    "glives (registerHit000 5600 (registerHit000 5000 underFire)) = 4"
    "invulnerableUntil (registerHit000 5600 (registerHit000 5000 underFire)) = 6200"
    "glives (registerHit001 5600 (registerHit001 5000 underFire)) = 4"
    "invulnerableUntil (registerHit001 5600 (registerHit001 5000 underFire)) = 7000"
    "curBoss (hitCallback000 (\<lambda>k. 5000) 0 ?b underFire) = Some (stageOneBoss\<lparr>sBullets := []\<rparr>)"
    "curBoss (registerHit001 5000 underFire) = Some (stageOneBoss\<lparr>sBullets := []\<rparr>)"
    "glives (bossVsPlayer000 (\<lambda>k. 5000) underFire) = 5
       \<or> glives (bossVsPlayer000 (\<lambda>k. 5000) underFire) = 4"
    "glives (bossVsPlayer001 (\<lambda>k. 5000) underFire) = 5
       \<or> glives (bossVsPlayer001 (\<lambda>k. 5000) underFire) = 4"
    "lives (playerHit startedGame) = 4"
    using underFire_facts sg sp by simp_all
  moreover from b have
    "glives (bossVsPlayer000 (\<lambda>k. 5600) (underFire\<lparr>invulnerableUntil := 6200\<rparr>)) = 5"
    "bossVsPlayer001 (\<lambda>k. 5600) (underFire\<lparr>invulnerableUntil := 6200\<rparr>)
       = underFire\<lparr>invulnerableUntil := 6200\<rparr>"
    using underFire_facts by simp_all
  ultimately show ?thesis by blast
qed


subsection \<open>Kinematics\<close>










lemma stray_forever:
  "pilotBullets (thePilot ((updateBulletsB 640 480 ^^ n) strayShot)) = [pilotShot 300 (600 + 7 * real n) 0 7]"
proof (induction n)
  case 0
  show ?case by (simp add: strayShot_def startedBossGame_def)
next
  case (Suc n)
  have "pilotBullets (thePilot ((updateBulletsB 640 480 ^^ Suc n) strayShot)) =
      filter (keepPlayerShot 640) (map movePlayerShot
        (pilotBullets (thePilot ((updateBulletsB 640 480 ^^ n) strayShot))))"
    by (simp add: updateBulletsB_def)
  also have "\<dots> = filter (keepPlayerShot 640) (map movePlayerShot [pilotShot 300 (600 + 7 * real n) 0 7])"
    by (simp only: Suc.IH)
  also have "\<dots> = [pilotShot 300 (600 + 7 * real (Suc n)) 0 7]"
    by (simp add: pilotShot_def movePlayerShot_def keepPlayerShot_def algebra_simps)
  finally show ?case .
qed

text \<open>
  Claim C7 at its failing input. In the boss games the filter of the player's bullets
  tests the top, the left and the right of the canvas but not the bottom: a player bullet
  below the canvas (here at 600 on a canvas 480 high) and moving down stays in the pool,
  pass after pass. The other pools do cull at the bottom, as the two lemmas after it say.
\<close>

theorem stray_player_bullet_kept:
  "pilotBullets (thePilot strayShot) = [pilotShot 300 600 0 7]
   \<and> pilotBullets (thePilot (updateBulletsB 640 480 strayShot)) = [pilotShot 300 607 0 7]
   \<and> pilotBullets (thePilot (updateBulletsB 640 480 (updateBulletsB 640 480 strayShot)))
       = [pilotShot 300 614 0 7]
   \<and> (\<forall>n. pilotBullets (thePilot ((updateBulletsB 640 480 ^^ n) strayShot))
       = [pilotShot 300 (600 + 7 * real n) 0 7])"
  using stray_forever
  by (simp add: strayShot_def startedBossGame_def updateBulletsB_def pilotShot_def
      movePlayerShot_def keepPlayerShot_def)

lemma scrolling_cull_bottom:
  "b \<in> set (updatePool W H bs) \<Longrightarrow> ypos b \<le> H + 10"
  by (auto simp add: updatePool_filter offScreen_def)

lemma boss_shot_cull_bottom:
  "curBoss (updateBulletsB W H g) = Some b \<Longrightarrow> s \<in> set (sBullets b) \<Longrightarrow> ypos s < H + height s"
  by (auto simp add: updateBulletsB_def keepBossShot_def)


subsection \<open>The scheduler\<close>





















end
